theory Spec2Isabelle
  imports Main "HOL-Library.Sublist"
begin

section \<open>CustomFetch: the URL builder\<close>

text \<open>
  Strings are byte strings: a JavaScript string of well-formed Unicode text is
  represented by its UTF-8 bytes, which is what \<open>encodeURIComponent\<close> works on. A string
  that is not well formed (a lone surrogate), on which \<open>encodeURIComponent\<close> throws a
  URIError, has no counterpart here.
\<close>

subsection \<open>Query parameters\<close>

text \<open>
  \<open>QueryParams = Record<string, string | number | boolean | null | undefined |
  string[] | number[]>\<close>. The record is kept as the list of its entries in the order
  of \<open>Object.entries\<close>.
\<close>

text \<open>
  A number is either a safe integer, \<open>|i| \<le> 2^53 - 1\<close>, for which \<open>String\<close> gives the
  decimal notation, or any other number (a fraction, a larger magnitude, NaN, an
  infinity), which is kept as the text \<open>String\<close> gives for it.
\<close>

typedef safe_int = "{i :: int. - 9007199254740991 \<le> i \<and> i \<le> 9007199254740991}"
  by (rule exI[of _ 0]) simp

datatype scalar = SStr string | SNum safe_int | SNumber string | SBool bool

datatype param_value = PNull | PUndefined | PScalar scalar | PArray "scalar list"

type_synonym query_params = "(string \<times> param_value) list"

definition digit_char :: "nat \<Rightarrow> char" where
  "digit_char d = char_of (48 + d)"

fun nat_digits :: "nat \<Rightarrow> string" where
  "nat_digits n = (if n < 10 then [digit_char n] else nat_digits (n div 10) @ [digit_char (n mod 10)])"

declare nat_digits.simps [simp del]

text \<open>\<open>String(value)\<close> for the scalars a parameter can hold.\<close>

fun String_of :: "scalar \<Rightarrow> string" where
  "String_of (SStr s) = s"
| "String_of (SNum n) =
     (let i = Rep_safe_int n
      in if i < 0 then CHR ''-'' # nat_digits (nat (- i)) else nat_digits (nat i))"
| "String_of (SNumber t) = t"
| "String_of (SBool b) = (if b then ''true'' else ''false'')"

subsection \<open>Percent-encoding\<close>

definition uri_unreserved :: "char \<Rightarrow> bool" where
  "uri_unreserved c =
     (c \<in> set ''ABCDEFGHIJKLMNOPQRSTUVWXYZabcdefghijklmnopqrstuvwxyz0123456789-_.!~*'()'')"

definition hex_digit :: "nat \<Rightarrow> char" where
  "hex_digit d = (if d < 10 then char_of (48 + d) else char_of (55 + d))"

definition percent_byte :: "char \<Rightarrow> string" where
  "percent_byte c = [CHR ''%'', hex_digit (of_char c div 16), hex_digit (of_char c mod 16)]"

text \<open>
  \<open>encodeURIComponent\<close>: every byte but \<open>A-Z a-z 0-9 - _ . ! ~ * ' ( )\<close> becomes
  \<open>%XX\<close> with upper-case hexadecimal digits.
\<close>

fun encodeURIComponent :: "string \<Rightarrow> string" where
  "encodeURIComponent [] = []"
| "encodeURIComponent (c # cs) =
     (if uri_unreserved c then c # encodeURIComponent cs
      else percent_byte c @ encodeURIComponent cs)"

subsection \<open>serializeParams and buildUrl\<close>

text \<open>\<open>parts.join(sep)\<close>.\<close>

fun join :: "string \<Rightarrow> string list \<Rightarrow> string" where
  "join sep [] = []"
| "join sep [p] = p"
| "join sep (p # q # ps) = p @ sep @ join sep (q # ps)"

definition key_value :: "string \<Rightarrow> scalar \<Rightarrow> string" where
  "key_value k v = encodeURIComponent k @ ''='' @ encodeURIComponent (String_of v)"

text \<open>The parts one entry pushes: none for null and undefined, one per array item.\<close>

fun entry_parts :: "string \<times> param_value \<Rightarrow> string list" where
  "entry_parts (k, PNull) = []"
| "entry_parts (k, PUndefined) = []"
| "entry_parts (k, PArray items) = map (key_value k) items"
| "entry_parts (k, PScalar v) = [key_value k v]"

definition serializeParams :: "query_params \<Rightarrow> string" where
  "serializeParams ps = join ''&'' (concat (map entry_parts ps))"

text \<open>
  \<open>buildUrl(baseUrl, params?)\<close>: \<open>None\<close> is an absent \<open>params\<close>; an object with no
  keys is the empty list.
\<close>

definition buildUrl :: "string \<Rightarrow> query_params option \<Rightarrow> string" where
  "buildUrl baseUrl ps =
     (case ps of
        None \<Rightarrow> baseUrl
      | Some entries \<Rightarrow>
          if length entries = 0 then baseUrl
          else (let queryString = serializeParams entries;
                    separator = (if CHR ''?'' \<in> set baseUrl then ''&'' else ''?'')
                in baseUrl @ separator @ queryString))"

section \<open>The receiving side of a URL\<close>










definition all_nullish :: "query_params \<Rightarrow> bool" where
  "all_nullish ps = list_all (\<lambda>(k, v). v = PNull \<or> v = PUndefined) ps"

section \<open>CustomFetch: values, exceptions and outcomes\<close>

text \<open>
  Untyped JavaScript values, as \<open>JSON.parse\<close> and the caller's callbacks produce them.
\<close>

datatype jsval =
    JUndefined
  | JNull
  | JBool bool
  | JNum int
  | JStr string
  | JArr "jsval list"
  | JObj "(string \<times> jsval) list"

text \<open>
  A thrown value: an \<open>Error\<close> object with its class, \<open>name\<close> and \<open>message\<close>, or any
  other value. A call that may throw returns \<open>thrown + 'a\<close>, \<open>Inl\<close> for the exception.
\<close>

datatype error_class = PlainError | TypeError

datatype thrown = Thrown error_class string string | ThrownValue jsval

fun isError :: "thrown \<Rightarrow> bool" where
  "isError (Thrown cls nm msg) = True"
| "isError (ThrownValue v) = False"

fun str_includes :: "string \<Rightarrow> string \<Rightarrow> bool" where
  "str_includes [] p = (p = [])"
| "str_includes (c # cs) p = (prefix p (c # cs) \<or> str_includes cs p)"

fun isAbortError :: "thrown \<Rightarrow> bool" where
  "isAbortError (Thrown cls nm msg) = (nm = ''AbortError'')"
| "isAbortError (ThrownValue v) = False"

fun isNetworkError :: "thrown \<Rightarrow> bool" where
  "isNetworkError (Thrown cls nm msg) = (cls = TypeError \<and> str_includes msg ''NetworkError'')"
| "isNetworkError (ThrownValue v) = False"

fun error_message :: "thrown \<Rightarrow> string" where
  "error_message (Thrown cls nm msg) = msg"
| "error_message (ThrownValue v) = ''Unknown error occurred''"

datatype http_method = GET | POST | PUT | PATCH | DELETE | HEAD | OPTIONS

fun method_text :: "http_method \<Rightarrow> string" where
  "method_text GET = ''GET''"
| "method_text POST = ''POST''"
| "method_text PUT = ''PUT''"
| "method_text PATCH = ''PATCH''"
| "method_text DELETE = ''DELETE''"
| "method_text HEAD = ''HEAD''"
| "method_text OPTIONS = ''OPTIONS''"

text \<open>\<open>BodyInit\<close>: a string, or a payload that is not textual (Blob, FormData, a buffer).\<close>

datatype body_init = BodyString string | BodyOther string

text \<open>
  \<open>SuccessResponse<T> | ErrorResponse<E>\<close>, discriminated by \<open>isSuccess\<close>. The two
  \<open>code\<close> fields have different types and so different names here.
\<close>

datatype header_value = Single string | Multiple "string list"

datatype outcome =
    isSuccess: Success
      (response: jsval) (success_code: int) (createdAt: int)
      (result_headers: "(string \<times> header_value) list") (requestId: string) (durationMs: int)
  | Failure
      (errors: jsval) (failure_code: "int option") (createdAt: int)
      (requestId: string) (durationMs: int) (stack: "string option")

record cache_item =
  data :: outcome
  timestamp :: int

text \<open>\<open>responseCache\<close>, the process-wide \<open>Map<string, CacheItem>\<close>.\<close>

type_synonym cache = "string \<rightharpoonup> cache_item"

record request_context =
  ctx_url :: string
  ctx_method :: http_method
  ctx_headers :: "(string \<times> string) list"
  ctx_body :: "body_init option"
  ctx_requestId :: string

record response_context =
  request :: request_context
  result :: outcome
  rsp_durationMs :: int

text \<open>
  \<open>FetchOptions\<close>. An optional field is an \<open>option\<close>; \<open>body\<close> is \<open>None\<close> for null and
  for undefined alike. A callback may throw. The field
  \<open>method\<close> is \<open>req_method\<close> here.
\<close>

record options =
  url :: string
  req_method :: "http_method option"
  headers :: "(string \<times> string) list"
  body :: "body_init option"
  params :: "query_params option"
  customToken :: "string option"
  timeout :: "int option"
  retries :: "int option"
  retryDelay :: "int option"
  validateStatus :: "(int \<Rightarrow> thrown + bool) option"
  responseGuard :: "(jsval \<Rightarrow> thrown + bool) option"
  errorGuard :: "(jsval \<Rightarrow> thrown + bool) option"
  errorTransformer :: "(jsval \<Rightarrow> int \<Rightarrow> thrown + jsval) option"
  responseTransformer :: "(jsval \<Rightarrow> thrown + jsval) option"
  cacheResponse :: "bool option"
  cacheTime :: "int option"
  includeCookies :: "bool option"
  debug :: "bool option"
  onRequest :: "(request_context \<Rightarrow> thrown + request_context) option"
  onResponse :: "(response_context \<Rightarrow> thrown + outcome) option"

text \<open>The transport's \<open>Response\<close>: reading its body may throw.\<close>

record fetch_response =
  status :: int
  ok :: bool
  resp_headers :: "(string \<times> string) list"
  resp_text :: "thrown + string"
  resp_arrayBuffer :: "thrown + string"
  getSetCookie :: "string list option"

text \<open>
  The collaborators of one call. \<open>fetch env ctx cookies k\<close> is what dispatch number
  \<open>k\<close> of the call yields (a response, or a thrown exception). The clocks are read as
  functions of the number of dispatches that have settled so far: \<open>0\<close> before the first
  one. Timers are not modelled: a timeout shows as the transport throwing an
  \<open>AbortError\<close>. Debug logging does not affect control flow and is left out. The platform's
  \<open>Headers\<close> class is a collaborator too: a \<open>Headers\<close> object is kept as the list of its
  entries, and \<open>new Headers(init)\<close>, \<open>headers.set(name, value)\<close> (both throw a TypeError on
  a name or value that is not valid) and \<open>headers.has(name)\<close> are what the environment
  says.
\<close>

record env =
  fetch :: "request_context \<Rightarrow> bool \<Rightarrow> nat \<Rightarrow> thrown + fetch_response"
  date_now :: "nat \<Rightarrow> int"
  performance_now :: "nat \<Rightarrow> int"
  JSON_parse :: "string \<Rightarrow> jsval option"
  Headers_new :: "(string \<times> string) list \<Rightarrow> thrown + (string \<times> string) list"
  Headers_set :: "string \<Rightarrow> string \<Rightarrow> (string \<times> string) list \<Rightarrow> thrown + (string \<times> string) list"
  Headers_has :: "(string \<times> string) list \<Rightarrow> string \<Rightarrow> bool"
  base64 :: "string \<Rightarrow> string"
  generateRequestId :: string
  IS_DEV :: bool
  error_stack :: string

text \<open>What one call does that a caller or a test double can observe.\<close>

datatype event = Dispatch | Sleep int | RequestIntercepted | ResponseIntercepted

section \<open>CustomFetch: the response cache\<close>

definition clearFetchCache :: "cache \<Rightarrow> cache" where
  "clearFetchCache c = Map.empty"

text \<open>
  \<open>clearSpecificCache(url, method = "GET", body = null)\<close> deletes the key
  \<open>${method}:${url}:${body ?? ""}\<close>.
\<close>

definition clear_key :: "string \<Rightarrow> http_method option \<Rightarrow> string option \<Rightarrow> string" where
  "clear_key u m b =
     method_text (case m of None \<Rightarrow> GET | Some m' \<Rightarrow> m') @ '':'' @ u @ '':'' @
     (case b of None \<Rightarrow> [] | Some t \<Rightarrow> t)"

definition clearSpecificCache ::
  "string \<Rightarrow> http_method option \<Rightarrow> string option \<Rightarrow> cache \<Rightarrow> cache" where
  "clearSpecificCache u m b c = c(clear_key u m b := None)"

definition default_to :: "'a \<Rightarrow> 'a option \<Rightarrow> 'a" where
  "default_to d v = (case v of None \<Rightarrow> d | Some x \<Rightarrow> x)"

text \<open>
  The cache key of a call:
  \<open>cacheResponse ? `${method}:${url}:$${typeof body === "string" ? body : ""}` : null\<close>.
  In the template, the \<open>$\<close> before \<open>${\<close> is a literal character of the key.
\<close>

definition body_text :: "body_init option \<Rightarrow> string" where
  "body_text b = (case b of Some (BodyString s) \<Rightarrow> s | _ \<Rightarrow> [])"

definition cache_key :: "options \<Rightarrow> request_context \<Rightarrow> string option" where
  "cache_key opts ctx =
     (if default_to False (cacheResponse opts)
      then Some (method_text (ctx_method ctx) @ '':'' @ ctx_url ctx @ '':$'' @ body_text (ctx_body ctx))
      else None)"

text \<open>\<open>if (cacheKey) responseCache.set(cacheKey, {data, timestamp: Date.now()})\<close>.\<close>

definition cache_set :: "string option \<Rightarrow> outcome \<Rightarrow> int \<Rightarrow> cache \<Rightarrow> cache" where
  "cache_set cacheKey d t c =
     (case cacheKey of
        None \<Rightarrow> c
      | Some k \<Rightarrow> if k \<noteq> [] then c(k \<mapsto> \<lparr>data = d, timestamp = t\<rparr>) else c)"

section \<open>CustomFetch: the request execution engine\<close>

subsection \<open>Defaults of the destructured options\<close>

definition method_of :: "options \<Rightarrow> http_method" where
  "method_of opts = default_to GET (req_method opts)"

definition retries_of :: "options \<Rightarrow> int" where
  "retries_of opts = default_to 0 (retries opts)"

definition retryDelay_of :: "options \<Rightarrow> int" where
  "retryDelay_of opts = default_to 1000 (retryDelay opts)"

definition cacheTime_of :: "options \<Rightarrow> int" where
  "cacheTime_of opts = default_to (5 * 60 * 1000) (cacheTime opts)"

definition includeCookies_of :: "options \<Rightarrow> bool" where
  "includeCookies_of opts = default_to False (includeCookies opts)"

subsection \<open>Headers\<close>

text \<open>
  A \<open>Headers\<close> object keeps its names in lower case. \<open>headers_get\<close> reads the headers of
  a response; \<open>headers_new\<close>, \<open>headers_has\<close> and \<open>headers_set\<close> are the operations of
  the test double of the environment, which accepts every name and value: \<open>set\<close>
  replaces the value of a name, the constructor appends each entry, joining the values of a
  repeated name with a comma and a space.
\<close>

definition lower_char :: "char \<Rightarrow> char" where
  "lower_char c =
     (let n = (of_char c :: nat) in if 65 \<le> n \<and> n \<le> 90 then char_of (n + 32) else c)"

text \<open>\<open>obj[key] = value\<close> on an object kept as its list of entries.\<close>

fun assign :: "'k \<Rightarrow> 'v \<Rightarrow> ('k \<times> 'v) list \<Rightarrow> ('k \<times> 'v) list" where
  "assign k v [] = [(k, v)]"
| "assign k v ((k', v') # kvs) = (if k' = k then (k, v) # kvs else (k', v') # assign k v kvs)"

definition headers_has :: "(string \<times> string) list \<Rightarrow> string \<Rightarrow> bool" where
  "headers_has hs n = (map_of hs (map lower_char n) \<noteq> None)"

definition headers_get :: "(string \<times> string) list \<Rightarrow> string \<Rightarrow> string option" where
  "headers_get hs n = map_of hs (map lower_char n)"

definition headers_set :: "string \<Rightarrow> string \<Rightarrow> (string \<times> string) list \<Rightarrow> (string \<times> string) list" where
  "headers_set n v hs = assign (map lower_char n) v hs"

definition headers_append :: "string \<Rightarrow> string \<Rightarrow> (string \<times> string) list \<Rightarrow> (string \<times> string) list" where
  "headers_append n v hs =
     (case map_of hs (map lower_char n) of
        None \<Rightarrow> hs @ [(map lower_char n, v)]
      | Some v0 \<Rightarrow> assign (map lower_char n) (v0 @ '', '' @ v) hs)"

definition headers_new :: "(string \<times> string) list \<Rightarrow> (string \<times> string) list" where
  "headers_new init = foldl (\<lambda>hs (n, v). headers_append n v hs) [] init"

subsection \<open>Classifying and parsing a response body\<close>

definition BINARY_PREFIXES :: "string list" where
  "BINARY_PREFIXES =
     [''image/'', ''audio/'', ''video/'', ''font/'', ''application/octet-stream'',
      ''application/pdf'', ''application/zip'', ''application/x-zip'', ''application/x-rar'',
      ''application/x-tar'', ''application/x-bzip'', ''application/x-gzip'',
      ''application/java-archive'', ''application/vnd.ms-'',
      ''application/vnd.openxmlformats-'']"

definition isBinaryContentType :: "string \<Rightarrow> bool" where
  "isBinaryContentType contentType =
     (if contentType = [] then False
      else list_ex (\<lambda>p. prefix p contentType) BINARY_PREFIXES)"

definition json_or_text :: "env \<Rightarrow> string \<Rightarrow> jsval" where
  "json_or_text env t = (case JSON_parse env t of Some v \<Rightarrow> v | None \<Rightarrow> JStr t)"

definition parseResponseBody :: "env \<Rightarrow> fetch_response \<Rightarrow> thrown + jsval" where
  "parseResponseBody env resp =
     (let contentType = headers_get (resp_headers resp) ''content-type'' in
      case resp_text resp of
        Inl e \<Rightarrow> Inl e
      | Inr t \<Rightarrow>
          (case contentType of
             None \<Rightarrow> Inr (json_or_text env t)
           | Some ct \<Rightarrow>
               if str_includes ct ''application/json'' then Inr (json_or_text env t)
               else if str_includes ct ''text/'' \<or> str_includes ct ''application/xml''
               then Inr (JStr t)
               else Inr (json_or_text env t)))"

subsection \<open>Building outcomes\<close>

text \<open>
  \<open>now\<close> is the number of dispatches settled when the outcome is built; it indexes the
  clocks.
\<close>

definition createSuccessResponse ::
  "env \<Rightarrow> nat \<Rightarrow> jsval \<Rightarrow> int \<Rightarrow> (string \<times> header_value) list \<Rightarrow> string \<Rightarrow> int \<Rightarrow> outcome" where
  "createSuccessResponse env now r c hs rid dur = Success r c (date_now env now) hs rid dur"

definition createErrorResponse ::
  "env \<Rightarrow> nat \<Rightarrow> jsval \<Rightarrow> int option \<Rightarrow> string \<Rightarrow> int \<Rightarrow> outcome" where
  "createErrorResponse env now e c rid dur =
     Failure e c (date_now env now) rid dur (if IS_DEV env then Some (error_stack env) else None)"

definition message_object :: "jsval \<Rightarrow> jsval" where
  "message_object m = JObj [(''message'', m)]"

definition elapsed :: "env \<Rightarrow> nat \<Rightarrow> int" where
  "elapsed env now = performance_now env now - performance_now env 0"

definition makeError :: "env \<Rightarrow> nat \<Rightarrow> jsval \<Rightarrow> int option \<Rightarrow> outcome" where
  "makeError env now m c =
     createErrorResponse env now (message_object m) c (generateRequestId env) (elapsed env now)"

subsection \<open>The error payload\<close>

text \<open>Reading \<open>v.message\<close>: a TypeError on null and undefined.\<close>

fun js_message :: "jsval \<Rightarrow> thrown + jsval" where
  "js_message JNull =
     Inl (Thrown TypeError ''TypeError'' ''Cannot read properties of null (reading 'message')'')"
| "js_message JUndefined =
     Inl (Thrown TypeError ''TypeError'' ''Cannot read properties of undefined (reading 'message')'')"
| "js_message (JObj kvs) = Inr (case map_of kvs ''message'' of None \<Rightarrow> JUndefined | Some v \<Rightarrow> v)"
| "js_message v = Inr JUndefined"

text \<open>\<open>a ?? b\<close>.\<close>

definition nullish_or :: "jsval \<Rightarrow> jsval \<Rightarrow> jsval" where
  "nullish_or a b = (if a = JNull \<or> a = JUndefined then b else a)"

text \<open>
  \<open>typeof rawError === "string" ? { message: rawError }
     : { ...rawError, message: rawError.message ?? "Unknown error" }\<close>.
\<close>

fun error_data :: "jsval \<Rightarrow> thrown + jsval" where
  "error_data (JStr t) = Inr (message_object (JStr t))"
| "error_data JNull = js_message JNull"
| "error_data JUndefined = js_message JUndefined"
| "error_data (JObj kvs) =
     Inr (JObj (assign ''message''
       (nullish_or (case map_of kvs ''message'' of None \<Rightarrow> JUndefined | Some v \<Rightarrow> v)
          (JStr ''Unknown error'')) kvs))"
| "error_data (JArr xs) =
     Inr (JObj (zip (map nat_digits [0..<length xs]) xs @ [(''message'', JStr ''Unknown error'')]))"
| "error_data v = Inr (message_object (JStr ''Unknown error''))"

subsection \<open>One attempt of the dispatch loop\<close>

text \<open>
  What one iteration of \<open>while (attempts <= retries)\<close> ends in: \<open>Continue\<close> is
  \<open>attempts++; await delay(backoffTime); continue\<close> with the value of \<open>lastErrorMessage\<close>,
  \<open>Return\<close> is a \<open>return\<close> with the cache as the iteration leaves it. Both carry the
  events of the iteration.
\<close>

datatype step = Continue jsval "event list" | Return outcome cache "event list"

fun emit :: "event list \<Rightarrow> step \<Rightarrow> step" where
  "emit evs (Continue m tr) = Continue m (evs @ tr)"
| "emit evs (Return r c tr) = Return r c (evs @ tr)"

text \<open>
  \<open>try { ... } catch (error) { ... }\<close>: a call inside the \<open>try\<close> block that throws goes
  to the handler, one that returns goes on.
\<close>

definition try_bind :: "(thrown \<Rightarrow> step) \<Rightarrow> thrown + 'a \<Rightarrow> ('a \<Rightarrow> step) \<Rightarrow> step" where
  "try_bind handler m f = (case m of Inl e \<Rightarrow> handler e | Inr a \<Rightarrow> f a)"

text \<open>The \<open>catch\<close> block of attempt \<open>k\<close> (the value of \<open>attempts\<close> on entry).\<close>

definition catch_block :: "env \<Rightarrow> options \<Rightarrow> cache \<Rightarrow> jsval \<Rightarrow> nat \<Rightarrow> thrown \<Rightarrow> step" where
  "catch_block env opts c lastErrorMessage k e =
     (if \<not> isAbortError e \<and> isNetworkError e \<and> int k < retries_of opts then
        (let attempts = Suc k;
             backoffTime = retryDelay_of opts * 2 ^ (attempts - 1)
         in Continue lastErrorMessage [Sleep backoffTime])
      else if isAbortError e then
        Return (makeError env (Suc k) (JStr ''Request timeout'') (Some 408)) c []
      else
        Return (makeError env (Suc k)
                  (if isError e then JStr (error_message e) else JStr ''Unknown error occurred'')
                  None) c [])"

text \<open>\<open>validateStatus ? validateStatus(code) : response.ok\<close>.\<close>

definition isResponseOk :: "options \<Rightarrow> fetch_response \<Rightarrow> thrown + bool" where
  "isResponseOk opts resp =
     (case validateStatus opts of None \<Rightarrow> Inr (ok resp) | Some v \<Rightarrow> v (status resp))"

text \<open>The negation of \<open>errorGuard && !errorGuard(errorData)\<close>.\<close>

definition error_guard_accepts :: "options \<Rightarrow> jsval \<Rightarrow> thrown + bool" where
  "error_guard_accepts opts errorData =
     (case errorGuard opts of None \<Rightarrow> Inr True | Some g \<Rightarrow> g errorData)"

text \<open>\<open>errorTransformer ? errorTransformer(errorData, code) : errorData\<close>.\<close>

definition transform_error :: "options \<Rightarrow> jsval \<Rightarrow> int \<Rightarrow> thrown + jsval" where
  "transform_error opts errorData code =
     (case errorTransformer opts of None \<Rightarrow> Inr errorData | Some t \<Rightarrow> t errorData code)"

text \<open>The end of the branch for a response that is not ok: interceptor, cache, return.\<close>

definition deliver_error ::
  "env \<Rightarrow> options \<Rightarrow> request_context \<Rightarrow> string option \<Rightarrow> cache \<Rightarrow> nat \<Rightarrow> (thrown \<Rightarrow> step) \<Rightarrow>
   int \<Rightarrow> jsval \<Rightarrow> step" where
  "deliver_error env opts ctx cacheKey c k handler code transformedError =
     (let dur = elapsed env (Suc k);
          errorResponse0 =
            createErrorResponse env (Suc k) transformedError (Some code) (generateRequestId env) dur;
          finish = (\<lambda>errorResponse.
            Return errorResponse
              (if code \<ge> 400 \<and> code < 500
               then cache_set cacheKey errorResponse (date_now env (Suc k)) c else c) [])
      in case onResponse opts of
           None \<Rightarrow> finish errorResponse0
         | Some f \<Rightarrow>
             emit [ResponseIntercepted]
               (try_bind handler
                  (f \<lparr>request = ctx, result = errorResponse0, rsp_durationMs = dur\<rparr>)
                  (\<lambda>r. finish (if \<not> isSuccess r then r else errorResponse0))))"

text \<open>
  The error payload of a response that is not ok: \<open>None\<close> when the error guard rejects
  it (the early return), otherwise the payload after the optional error transformer.
\<close>

definition error_payload :: "env \<Rightarrow> options \<Rightarrow> fetch_response \<Rightarrow> thrown + jsval option" where
  "error_payload env opts resp =
     (case parseResponseBody env resp of
        Inl e \<Rightarrow> Inl e
      | Inr rawError \<Rightarrow>
          (case error_data rawError of
             Inl e \<Rightarrow> Inl e
           | Inr errorData \<Rightarrow>
               (case error_guard_accepts opts errorData of
                  Inl e \<Rightarrow> Inl e
                | Inr accepted \<Rightarrow>
                    if \<not> accepted then Inr None
                    else (case transform_error opts errorData (status resp) of
                            Inl e \<Rightarrow> Inl e
                          | Inr transformedError \<Rightarrow> Inr (Some transformedError)))))"

definition error_path ::
  "env \<Rightarrow> options \<Rightarrow> request_context \<Rightarrow> string option \<Rightarrow> cache \<Rightarrow> nat \<Rightarrow> (thrown \<Rightarrow> step) \<Rightarrow>
   fetch_response \<Rightarrow> step" where
  "error_path env opts ctx cacheKey c k handler resp =
     (let code = status resp in
      try_bind handler (error_payload env opts resp) (\<lambda>payload.
        case payload of
          None \<Rightarrow>
            Return (createErrorResponse env (Suc k) (message_object (JStr ''Error validation failed''))
                      (Some code) (generateRequestId env) (elapsed env (Suc k))) c []
        | Some transformedError \<Rightarrow>
            if (code \<ge> 500 \<or> code = 429) \<and> int k < retries_of opts then
              try_bind handler (js_message transformedError) (\<lambda>lastErrorMessage.
                (let attempts = Suc k;
                     backoffTime = retryDelay_of opts * 2 ^ (attempts - 1)
                 in Continue lastErrorMessage [Sleep backoffTime]))
            else deliver_error env opts ctx cacheKey c k handler code transformedError))"

text \<open>The end of the branch for a response that is ok: headers, interceptor, cache, return.\<close>

definition collect_headers :: "fetch_response \<Rightarrow> (string \<times> header_value) list" where
  "collect_headers resp =
     (let headersObj = foldl (\<lambda>obj (key, v). assign key (Single v) obj) [] (resp_headers resp)
      in case getSetCookie resp of
           None \<Rightarrow> headersObj
         | Some setCookies \<Rightarrow>
             if length setCookies > 0 then assign ''set-cookie'' (Multiple setCookies) headersObj
             else headersObj)"

definition deliver_success ::
  "env \<Rightarrow> options \<Rightarrow> request_context \<Rightarrow> string option \<Rightarrow> cache \<Rightarrow> nat \<Rightarrow> (thrown \<Rightarrow> step) \<Rightarrow>
   fetch_response \<Rightarrow> jsval \<Rightarrow> step" where
  "deliver_success env opts ctx cacheKey c k handler resp parsedResponse =
     (let dur = elapsed env (Suc k);
          successResponse0 =
            createSuccessResponse env (Suc k) parsedResponse (status resp) (collect_headers resp)
              (generateRequestId env) dur;
          finish = (\<lambda>successResponse.
            Return successResponse (cache_set cacheKey successResponse (date_now env (Suc k)) c) [])
      in case onResponse opts of
           None \<Rightarrow> finish successResponse0
         | Some f \<Rightarrow>
             emit [ResponseIntercepted]
               (try_bind handler
                  (f \<lparr>request = ctx, result = successResponse0, rsp_durationMs = dur\<rparr>)
                  (\<lambda>r. finish (if isSuccess r then r else successResponse0))))"

text \<open>\<open>typeof v === "object" && v !== null\<close>.\<close>

fun is_object :: "jsval \<Rightarrow> bool" where
  "is_object (JObj kvs) = True"
| "is_object (JArr xs) = True"
| "is_object v = False"

text \<open>
  The payload of a response that is ok: the base64 text of a binary body, else the parsed
  body after the response guard or the response transformer. \<open>None\<close> is the early
  return of a response guard that rejects.
\<close>

definition parsed_payload :: "env \<Rightarrow> options \<Rightarrow> fetch_response \<Rightarrow> thrown + jsval option" where
  "parsed_payload env opts resp =
     (let contentType = default_to [] (headers_get (resp_headers resp) ''content-type'') in
      if isBinaryContentType contentType then
        (case resp_arrayBuffer resp of
           Inl e \<Rightarrow> Inl e
         | Inr bytes \<Rightarrow> Inr (Some (JStr (base64 env bytes))))
      else
        (case parseResponseBody env resp of
           Inl e \<Rightarrow> Inl e
         | Inr rawResponse \<Rightarrow>
             (case responseGuard opts of
                Some g \<Rightarrow>
                  (case g rawResponse of
                     Inl e \<Rightarrow> Inl e
                   | Inr accepted \<Rightarrow> if \<not> accepted then Inr None else Inr (Some rawResponse))
              | None \<Rightarrow>
                  (case responseTransformer opts of
                     Some t \<Rightarrow>
                       if is_object rawResponse then
                         (case t rawResponse of Inl e \<Rightarrow> Inl e | Inr v \<Rightarrow> Inr (Some v))
                       else Inr (Some rawResponse)
                   | None \<Rightarrow> Inr (Some rawResponse)))))"

definition success_path ::
  "env \<Rightarrow> options \<Rightarrow> request_context \<Rightarrow> string option \<Rightarrow> cache \<Rightarrow> nat \<Rightarrow> (thrown \<Rightarrow> step) \<Rightarrow>
   fetch_response \<Rightarrow> step" where
  "success_path env opts ctx cacheKey c k handler resp =
     try_bind handler (parsed_payload env opts resp) (\<lambda>payload.
       case payload of
         None \<Rightarrow>
           Return (createErrorResponse env (Suc k)
                     (message_object (JStr ''Response validation failed''))
                     (Some (status resp)) (generateRequestId env) (elapsed env (Suc k))) c []
       | Some parsedResponse \<Rightarrow>
           deliver_success env opts ctx cacheKey c k handler resp parsedResponse)"

definition attempt ::
  "env \<Rightarrow> options \<Rightarrow> request_context \<Rightarrow> string option \<Rightarrow> cache \<Rightarrow> jsval \<Rightarrow> nat \<Rightarrow> step" where
  "attempt env opts ctx cacheKey c lastErrorMessage k =
     (let handler = catch_block env opts c lastErrorMessage k in
      emit [Dispatch]
        (try_bind handler (fetch env ctx (includeCookies_of opts) k) (\<lambda>resp.
         try_bind handler (isResponseOk opts resp) (\<lambda>responseOk.
           if \<not> responseOk then error_path env opts ctx cacheKey c k handler resp
           else success_path env opts ctx cacheKey c k handler resp))))"

subsection \<open>The dispatch loop and the engine\<close>

text \<open>
  \<open>while (attempts <= retries) { ... }\<close> followed by \<open>return makeError(lastErrorMessage,
  null)\<close>. The result is the outcome, the cache and the events from this attempt on.
\<close>

function dispatch_loop ::
  "env \<Rightarrow> options \<Rightarrow> request_context \<Rightarrow> string option \<Rightarrow> cache \<Rightarrow> jsval \<Rightarrow> nat \<Rightarrow>
   outcome \<times> cache \<times> event list" where
  "dispatch_loop env opts ctx cacheKey c lastErrorMessage attempts =
     (if int attempts \<le> retries_of opts then
        (case attempt env opts ctx cacheKey c lastErrorMessage attempts of
           Continue m evs \<Rightarrow>
             (case dispatch_loop env opts ctx cacheKey c m (Suc attempts) of
                (r, c', tr) \<Rightarrow> (r, c', evs @ tr))
         | Return r c' evs \<Rightarrow> (r, c', evs))
      else (makeError env attempts lastErrorMessage None, c, []))"
  by pat_completeness auto
termination
  by (relation "measure (\<lambda>(env, opts, ctx, cacheKey, c, m, attempts). nat (retries_of opts + 1 - int attempts))")
     auto

declare dispatch_loop.simps [simp del]

text \<open>
  Header assembly before the request interceptor, outside the \<open>try\<close> block of the loop:
  \<open>new Headers(optionHeaders)\<close> and \<open>headers.set("Authorization", ...)\<close> may throw. The
  \<open>Content-Type\<close> default is set inside \<open>try { ... } catch { }\<close>, which swallows every
  exception.
\<close>

definition assemble_headers :: "env \<Rightarrow> options \<Rightarrow> thrown + (string \<times> string) list" where
  "assemble_headers env opts =
     (case Headers_new env (headers opts) of
        Inl e \<Rightarrow> Inl e
      | Inr hs0 \<Rightarrow>
          (case (case customToken opts of
                   Some t \<Rightarrow>
                     if t \<noteq> [] then Headers_set env ''Authorization'' (''Bearer '' @ t) hs0
                     else Inr hs0
                 | None \<Rightarrow> Inr hs0) of
             Inl e \<Rightarrow> Inl e
           | Inr hs1 \<Rightarrow>
               (case body opts of
                  Some (BodyString b) \<Rightarrow>
                    if b \<noteq> [] \<and> \<not> Headers_has env hs1 ''Content-Type'' then
                      (case JSON_parse env b of
                         Some v \<Rightarrow>
                           (case Headers_set env ''Content-Type'' ''application/json'' hs1 of
                              Inl e \<Rightarrow> Inr hs1
                            | Inr hs2 \<Rightarrow> Inr hs2)
                       | None \<Rightarrow> Inr hs1)
                    else Inr hs1
                | _ \<Rightarrow> Inr hs1)))"

text \<open>
  The cache probe: the data of a live entry, if there is one, and the cache after the
  probe. A stale entry is deleted.
\<close>

definition cache_probe ::
  "env \<Rightarrow> options \<Rightarrow> string option \<Rightarrow> cache \<Rightarrow> outcome option \<times> cache" where
  "cache_probe env opts cacheKey c =
     (case cacheKey of
        None \<Rightarrow> (None, c)
      | Some key \<Rightarrow>
          if key = [] then (None, c)
          else (case c key of
                  None \<Rightarrow> (None, c)
                | Some cachedItem \<Rightarrow>
                    if date_now env 0 - timestamp cachedItem < cacheTime_of opts
                    then (Some (data cachedItem), c)
                    else (None, c(key := None))))"

text \<open>
  After the request interceptor: a live entry is returned as it is, otherwise the loop
  starts with \<open>attempts = 0\<close>.
\<close>

definition probe_and_dispatch ::
  "env \<Rightarrow> options \<Rightarrow> request_context \<Rightarrow> cache \<Rightarrow> outcome \<times> cache \<times> event list" where
  "probe_and_dispatch env opts ctx c =
     (let cacheKey = cache_key opts ctx in
      case cache_probe env opts cacheKey c of
        (Some cached, c') \<Rightarrow> (cached, c', [])
      | (None, c') \<Rightarrow>
          dispatch_loop env opts ctx cacheKey c' (JStr ''Maximum retry count reached'') 0)"

text \<open>
  The request context before and after the request interceptor; building the headers and
  the interceptor may throw. With it the events of the interception.
\<close>

definition initial_context :: "env \<Rightarrow> options \<Rightarrow> thrown + request_context" where
  "initial_context env opts =
     (let u = buildUrl (url opts) (params opts) in
      case assemble_headers env opts of
        Inl e \<Rightarrow> Inl e
      | Inr hs \<Rightarrow>
          Inr \<lparr>ctx_url = u, ctx_method = method_of opts, ctx_headers = hs, ctx_body = body opts,
               ctx_requestId = generateRequestId env\<rparr>)"

definition intercept_request :: "env \<Rightarrow> options \<Rightarrow> (thrown + request_context) \<times> event list" where
  "intercept_request env opts =
     (case initial_context env opts of
        Inl e \<Rightarrow> (Inl e, [])
      | Inr requestContext0 \<Rightarrow>
          (case onRequest opts of
             None \<Rightarrow> (Inr requestContext0, [])
           | Some f \<Rightarrow> (f requestContext0, [RequestIntercepted])))"

text \<open>
  \<open>CustomFetch({options})\<close> on a cache: the outcome, or the exception the call rejects
  with, then the cache and the events of the call. Header assembly and the request
  interceptor run outside the \<open>try\<close> block.
\<close>

definition CustomFetch ::
  "env \<Rightarrow> options \<Rightarrow> cache \<Rightarrow> (thrown + outcome) \<times> cache \<times> event list" where
  "CustomFetch env opts c =
     (case intercept_request env opts of
        (Inl e, evs) \<Rightarrow> (Inl e, c, evs)
      | (Inr requestContext, evs) \<Rightarrow>
          (case probe_and_dispatch env opts requestContext c of
             (r, c', tr) \<Rightarrow> (Inr r, c', evs @ tr)))"

section \<open>Notions the properties are stated with\<close>


definition dispatches :: "event list \<Rightarrow> nat" where
  "dispatches tr = length (filter (\<lambda>ev. ev = Dispatch) tr)"

fun sleeps :: "event list \<Rightarrow> int list" where
  "sleeps [] = []"
| "sleeps (Sleep ms # tr) = ms # sleeps tr"
| "sleeps (ev # tr) = sleeps tr"

text \<open>
  The failure the \<open>catch\<close> block returns for an exception it does not retry: status 408
  for an \<open>AbortError\<close>, otherwise no status and the exception's message.
\<close>

definition caught_failure :: "env \<Rightarrow> nat \<Rightarrow> thrown \<Rightarrow> outcome" where
  "caught_failure env k e =
     (if isAbortError e then makeError env (Suc k) (JStr ''Request timeout'') (Some 408)
      else makeError env (Suc k)
             (if isError e then JStr (error_message e) else JStr ''Unknown error occurred'') None)"

text \<open>The cache after a terminal failure with status \<open>code\<close>: written for 4xx only.\<close>

definition error_store :: "string option \<Rightarrow> int \<Rightarrow> outcome \<Rightarrow> int \<Rightarrow> cache \<Rightarrow> cache" where
  "error_store key code r t c = (if code \<ge> 400 \<and> code < 500 then cache_set key r t c else c)"

section \<open>Test doubles\<close>

text \<open>
  Concrete inputs for the instances below: options that set only the URL, a response
  with a plain-text body, and an environment whose transport answers dispatch \<open>k\<close>
  with \<open>answers k\<close>, whose JSON parser accepts nothing, whose \<open>Headers\<close> accept every
  name and value, and whose clocks tick once per settled dispatch.
\<close>

definition plain_options :: "string \<Rightarrow> options" where
  "plain_options u =
     \<lparr>url = u, req_method = None, headers = [], body = None, params = None, customToken = None,
      timeout = None, retries = None, retryDelay = None, validateStatus = None,
      responseGuard = None, errorGuard = None, errorTransformer = None,
      responseTransformer = None, cacheResponse = None, cacheTime = None,
      includeCookies = None, debug = None, onRequest = None, onResponse = None\<rparr>"

definition text_response :: "int \<Rightarrow> string \<Rightarrow> fetch_response" where
  "text_response st t =
     \<lparr>status = st, ok = (200 \<le> st \<and> st \<le> 299),
      resp_headers = [(''content-type'', ''text/plain'')],
      resp_text = Inr t, resp_arrayBuffer = Inr t, getSetCookie = None\<rparr>"

definition test_env :: "(nat \<Rightarrow> thrown + fetch_response) \<Rightarrow> env" where
  "test_env answers =
     \<lparr>fetch = (\<lambda>ctx cookies k. answers k), date_now = (\<lambda>n. 1000 + int n),
      performance_now = (\<lambda>n. 10 * int n), JSON_parse = (\<lambda>t. None),
      Headers_new = (\<lambda>init. Inr (headers_new init)),
      Headers_set = (\<lambda>n v hs. Inr (headers_set n v hs)), Headers_has = headers_has,
      base64 = (\<lambda>b. b),
      generateRequestId = ''rid'', IS_DEV = False, error_stack = []\<rparr>"


definition always_answers :: "int \<Rightarrow> string \<Rightarrow> nat \<Rightarrow> thrown + fetch_response" where
  "always_answers st t k = Inr (text_response st t)"

text \<open>
  Exceptions, interceptors and a guard for the instances: an \<open>AbortError\<close> as the
  transport raises it on a timeout, an ordinary \<open>Error\<close>, response interceptors that
  answer with a fixed success, with a fixed failure, or throw, a request interceptor that
  throws, a guard that rejects everything, and the request context of \<open>plain_options\<close>.
\<close>

definition abort_error :: thrown where
  "abort_error = Thrown PlainError ''AbortError'' ''The operation was aborted''"

definition boom :: thrown where
  "boom = Thrown PlainError ''Error'' ''boom''"

definition substitute_success :: "response_context \<Rightarrow> thrown + outcome" where
  "substitute_success rc = Inr (Success (JStr ''fine'') 200 0 [] ''other'' 0)"

definition substitute_failure :: "response_context \<Rightarrow> thrown + outcome" where
  "substitute_failure rc = Inr (Failure (JObj [(''message'', JStr ''vetoed'')]) (Some 418) 0 ''other'' 0 None)"

definition throwing_interceptor :: "response_context \<Rightarrow> thrown + outcome" where
  "throwing_interceptor rc = Inl boom"

definition throwing_request_interceptor :: "request_context \<Rightarrow> thrown + request_context" where
  "throwing_request_interceptor rc = Inl boom"

definition rejecting_guard :: "jsval \<Rightarrow> thrown + bool" where
  "rejecting_guard v = Inr False"

definition accepting_guard :: "jsval \<Rightarrow> thrown + bool" where
  "accepting_guard v = Inr True"

definition plain_context :: "string \<Rightarrow> request_context" where
  "plain_context u =
     \<lparr>ctx_url = u, ctx_method = GET, ctx_headers = [], ctx_body = None, ctx_requestId = ''rid''\<rparr>"

text \<open>
  Options with caching on, a response interceptor and guards that reject; a response
  transformer; options with caching on only; two outcomes for cache entries.
\<close>

definition busy_options :: options where
  "busy_options =
     (plain_options ''u'')\<lparr>cacheResponse := Some True, onResponse := Some substitute_success,
       errorGuard := Some rejecting_guard, responseGuard := Some rejecting_guard\<rparr>"


definition caching_options :: options where
  "caching_options = (plain_options ''u'')\<lparr>cacheResponse := Some True\<rparr>"

definition old_outcome :: outcome where
  "old_outcome = Success (JStr ''old'') 200 900 [] ''rid0'' 5"

definition hello_outcome :: outcome where
  "hello_outcome = Success (JStr ''hello'') 200 1001 [(''content-type'', Single ''text/plain'')] ''rid'' 10"

section \<open>Properties of the URL builder\<close>

subsection \<open>Percent-decoding undoes percent-encoding\<close>








subsection \<open>The encoded text holds no separator\<close>




subsection \<open>Cutting a joined string\<close>






















lemma serialize_all_nullish: "all_nullish ps \<Longrightarrow> serializeParams ps = []"
  by (induction ps) (auto simp: all_nullish_def serializeParams_def)

text \<open>
  Claim C9. For a parameter map that is not empty and whose values are all null or
  undefined, \<open>buildUrl\<close> does not return the base URL unchanged: the query string is
  empty and the result is the base URL followed by the bare separator, \<open>?\<close>, or \<open>&\<close>
  when the base URL already contains \<open>?\<close>.
\<close>

theorem buildUrl_all_nullish_bare_separator:
  assumes "ps \<noteq> []" and "all_nullish ps"
  shows "buildUrl baseUrl (Some ps) =
           baseUrl @ (if CHR ''?'' \<in> set baseUrl then ''&'' else ''?'') \<and>
         buildUrl baseUrl (Some ps) \<noteq> baseUrl"
  using assms by (simp add: buildUrl_def serialize_all_nullish)

theorem buildUrl_all_nullish_bare_separator_witness:
  "[(''a'', PNull), (''b'', PUndefined)] \<noteq> [] \<and>
   all_nullish [(''a'', PNull), (''b'', PUndefined)] \<and>
   buildUrl ''http://h/p'' (Some [(''a'', PNull), (''b'', PUndefined)]) = ''http://h/p?'' \<and>
   buildUrl ''http://h/p?x=1'' (Some [(''a'', PNull), (''b'', PUndefined)]) = ''http://h/p?x=1&''"
proof -
  have ne: "[(''a'', PNull), (''b'', PUndefined)] \<noteq> []" by simp
  have an: "all_nullish [(''a'', PNull), (''b'', PUndefined)]" by (simp add: all_nullish_def)
  show ?thesis
    using buildUrl_all_nullish_bare_separator[OF ne an, of "''http://h/p''"]
          buildUrl_all_nullish_bare_separator[OF ne an, of "''http://h/p?x=1''"]
    by (simp add: an)
qed

section \<open>Properties of the engine\<close>

subsection \<open>Evaluating the instances\<close>

text \<open>
  The definitions a concrete call is evaluated with, grouped for the simplifier.
\<close>

lemmas fixture_defs =
  plain_options_def text_response_def test_env_def always_answers_def abort_error_def boom_def
  substitute_success_def substitute_failure_def throwing_interceptor_def
  throwing_request_interceptor_def rejecting_guard_def accepting_guard_def plain_context_def

lemmas option_defs =
  default_to_def method_of_def retries_of_def retryDelay_of_def cacheTime_of_def
  includeCookies_of_def

lemmas body_defs =
  headers_get_def lower_char_def isBinaryContentType_def BINARY_PREFIXES_def json_or_text_def
  parseResponseBody_def isResponseOk_def error_guard_accepts_def transform_error_def
  error_payload_def parsed_payload_def message_object_def

lemmas outcome_defs =
  createSuccessResponse_def createErrorResponse_def makeError_def elapsed_def collect_headers_def
  caught_failure_def

lemmas call_defs =
  CustomFetch_def intercept_request_def initial_context_def assemble_headers_def headers_new_def
  buildUrl_def
  probe_and_dispatch_def cache_probe_def cache_key_def body_text_def cache_set_def error_store_def
  dispatch_loop.simps attempt_def try_bind_def catch_block_def error_path_def success_path_def
  deliver_error_def deliver_success_def

lemma initial_plain: "initial_context (test_env a) (plain_options u) = Inr (plain_context u)"
  by (simp add: fixture_defs option_defs call_defs)


subsection \<open>Outcomes built by the engine\<close>

lemma createErrorResponse_sel [simp]:
  "\<not> isSuccess (createErrorResponse env now e code rid dur)"
  "failure_code (createErrorResponse env now e code rid dur) = code"
  "errors (createErrorResponse env now e code rid dur) = e"
  by (simp_all add: createErrorResponse_def)

lemma makeError_sel [simp]:
  "\<not> isSuccess (makeError env now m code)"
  "failure_code (makeError env now m code) = code"
  "errors (makeError env now m code) = JObj [(''message'', m)]"
  by (simp_all add: makeError_def message_object_def)

lemma createSuccessResponse_sel [simp]:
  "isSuccess (createSuccessResponse env now r code hs rid dur)"
  "response (createSuccessResponse env now r code hs rid dur) = r"
  "success_code (createSuccessResponse env now r code hs rid dur) = code"
  by (simp_all add: createSuccessResponse_def)

subsection \<open>Unfolding the loop by one attempt\<close>

lemma dispatch_loop_Return:
  "int k \<le> retries_of opts \<Longrightarrow> attempt env opts ctx key c m k = Return r c' evs \<Longrightarrow>
   dispatch_loop env opts ctx key c m k = (r, c', evs)"
  by (simp add: dispatch_loop.simps)

lemma dispatch_loop_Continue:
  "int k \<le> retries_of opts \<Longrightarrow> attempt env opts ctx key c m k = Continue m' evs \<Longrightarrow>
   dispatch_loop env opts ctx key c m k =
     (case dispatch_loop env opts ctx key c m' (Suc k) of (r, c', tr) \<Rightarrow> (r, c', evs @ tr))"
  by (simp add: dispatch_loop.simps)

lemma dispatch_loop_exhausted:
  "\<not> int k \<le> retries_of opts \<Longrightarrow>
   dispatch_loop env opts ctx key c m k = (makeError env k m None, c, [])"
  by (simp add: dispatch_loop.simps)

subsection \<open>The catch block\<close>


lemma catch_block_final:
  "\<not> (\<not> isAbortError e \<and> isNetworkError e \<and> int k < retries_of opts) \<Longrightarrow>
   catch_block env opts c m k e = Return (caught_failure env k e) c []"
  by (auto simp add: catch_block_def caught_failure_def)

lemma catch_block_retry:
  "\<not> isAbortError e \<Longrightarrow> isNetworkError e \<Longrightarrow> int k < retries_of opts \<Longrightarrow>
   catch_block env opts c m k e = Continue m [Sleep (retryDelay_of opts * 2 ^ k)]"
  by (simp add: catch_block_def)

lemma caught_failure_sel [simp]: "\<not> isSuccess (caught_failure env k e)"
  by (simp add: caught_failure_def)

subsection \<open>The branches of one attempt\<close>

lemma attempt_fetch_throws:
  "fetch env ctx (includeCookies_of opts) k = Inl e \<Longrightarrow>
   attempt env opts ctx key c m k = emit [Dispatch] (catch_block env opts c m k e)"
  by (simp add: attempt_def try_bind_def)

lemma attempt_not_ok:
  "fetch env ctx (includeCookies_of opts) k = Inr resp \<Longrightarrow> isResponseOk opts resp = Inr False \<Longrightarrow>
   attempt env opts ctx key c m k =
     emit [Dispatch] (error_path env opts ctx key c k (catch_block env opts c m k) resp)"
  by (simp add: attempt_def try_bind_def)

lemma attempt_ok:
  "fetch env ctx (includeCookies_of opts) k = Inr resp \<Longrightarrow> isResponseOk opts resp = Inr True \<Longrightarrow>
   attempt env opts ctx key c m k =
     emit [Dispatch] (success_path env opts ctx key c k (catch_block env opts c m k) resp)"
  by (simp add: attempt_def try_bind_def)

lemma error_path_rejected:
  "error_payload env opts resp = Inr None \<Longrightarrow>
   error_path env opts ctx key c k handler resp =
     Return (createErrorResponse env (Suc k) (message_object (JStr ''Error validation failed''))
               (Some (status resp)) (generateRequestId env) (elapsed env (Suc k))) c []"
  by (simp add: error_path_def try_bind_def)


lemma error_path_deliver:
  "error_payload env opts resp = Inr (Some te) \<Longrightarrow>
   \<not> ((status resp \<ge> 500 \<or> status resp = 429) \<and> int k < retries_of opts) \<Longrightarrow>
   error_path env opts ctx key c k handler resp =
     deliver_error env opts ctx key c k handler (status resp) te"
  by (auto simp add: error_path_def try_bind_def Let_def)

lemma success_path_rejected:
  "parsed_payload env opts resp = Inr None \<Longrightarrow>
   success_path env opts ctx key c k handler resp =
     Return (createErrorResponse env (Suc k) (message_object (JStr ''Response validation failed''))
               (Some (status resp)) (generateRequestId env) (elapsed env (Suc k))) c []"
  by (simp add: success_path_def try_bind_def)

lemma success_path_deliver:
  "parsed_payload env opts resp = Inr (Some p) \<Longrightarrow>
   success_path env opts ctx key c k handler resp =
     deliver_success env opts ctx key c k handler resp p"
  by (simp add: success_path_def try_bind_def)


lemma error_data_defined_iff:
  "(\<exists>ed. error_data raw = Inr ed) \<longleftrightarrow> raw \<noteq> JNull \<and> raw \<noteq> JUndefined"
  by (cases raw) auto


subsection \<open>Delivering a terminal outcome\<close>

lemma deliver_error_plain:
  "onResponse opts = None \<Longrightarrow>
   deliver_error env opts ctx key c k handler code te =
     (let e0 = createErrorResponse env (Suc k) te (Some code) (generateRequestId env) (elapsed env (Suc k))
      in Return e0 (error_store key code e0 (date_now env (Suc k)) c) [])"
  by (simp add: deliver_error_def Let_def error_store_def)

lemma deliver_error_intercepted:
  assumes "onResponse opts = Some f"
    and "f \<lparr>request = ctx,
            result = createErrorResponse env (Suc k) te (Some code) (generateRequestId env) (elapsed env (Suc k)),
            rsp_durationMs = elapsed env (Suc k)\<rparr> = Inr r"
  shows "deliver_error env opts ctx key c k handler code te =
     (let final = (if isSuccess r
                   then createErrorResponse env (Suc k) te (Some code) (generateRequestId env) (elapsed env (Suc k))
                   else r)
      in Return final (error_store key code final (date_now env (Suc k)) c) [ResponseIntercepted])"
  using assms by (simp add: deliver_error_def Let_def try_bind_def error_store_def)

lemma deliver_error_interceptor_throws:
  assumes "onResponse opts = Some f"
    and "f \<lparr>request = ctx,
            result = createErrorResponse env (Suc k) te (Some code) (generateRequestId env) (elapsed env (Suc k)),
            rsp_durationMs = elapsed env (Suc k)\<rparr> = Inl e"
  shows "deliver_error env opts ctx key c k handler code te = emit [ResponseIntercepted] (handler e)"
  using assms by (simp add: deliver_error_def Let_def try_bind_def)

lemma deliver_success_plain:
  "onResponse opts = None \<Longrightarrow>
   deliver_success env opts ctx key c k handler resp p =
     (let s0 = createSuccessResponse env (Suc k) p (status resp) (collect_headers resp)
                 (generateRequestId env) (elapsed env (Suc k))
      in Return s0 (cache_set key s0 (date_now env (Suc k)) c) [])"
  by (simp add: deliver_success_def Let_def)

lemma deliver_success_intercepted:
  assumes "onResponse opts = Some f"
    and "f \<lparr>request = ctx,
            result = createSuccessResponse env (Suc k) p (status resp) (collect_headers resp)
                       (generateRequestId env) (elapsed env (Suc k)),
            rsp_durationMs = elapsed env (Suc k)\<rparr> = Inr r"
  shows "deliver_success env opts ctx key c k handler resp p =
     (let final = (if isSuccess r then r
                   else createSuccessResponse env (Suc k) p (status resp) (collect_headers resp)
                          (generateRequestId env) (elapsed env (Suc k)))
      in Return final (cache_set key final (date_now env (Suc k)) c) [ResponseIntercepted])"
  using assms by (simp add: deliver_success_def Let_def try_bind_def)

lemma deliver_success_interceptor_throws:
  assumes "onResponse opts = Some f"
    and "f \<lparr>request = ctx,
            result = createSuccessResponse env (Suc k) p (status resp) (collect_headers resp)
                       (generateRequestId env) (elapsed env (Suc k)),
            rsp_durationMs = elapsed env (Suc k)\<rparr> = Inl e"
  shows "deliver_success env opts ctx key c k handler resp p = emit [ResponseIntercepted] (handler e)"
  using assms by (simp add: deliver_success_def Let_def try_bind_def)

subsection \<open>A run of retried attempts\<close>






lemma intercept_request_events:
  "intercept_request env opts = (x, evs) \<Longrightarrow> dispatches evs = 0 \<and> sleeps evs = []"
  by (auto simp: intercept_request_def dispatches_def split: option.splits sum.splits)

subsection \<open>Retries on persistent server errors\<close>





subsection \<open>Timeouts and the other direct failures\<close>



lemma direct_failure_exits:
  assumes "int k \<le> retries_of opts"
  shows "(fetch env ctx (includeCookies_of opts) k = Inl e \<and>
          \<not> (\<not> isAbortError e \<and> isNetworkError e \<and> int k < retries_of opts) \<longrightarrow>
            dispatch_loop env opts ctx key c m k = (caught_failure env k e, c, [Dispatch])) \<and>
         (fetch env ctx (includeCookies_of opts) k = Inr resp \<and>
          isResponseOk opts resp = Inr False \<and> error_payload env opts resp = Inr None \<longrightarrow>
            dispatch_loop env opts ctx key c m k =
              (createErrorResponse env (Suc k) (message_object (JStr ''Error validation failed''))
                 (Some (status resp)) (generateRequestId env) (elapsed env (Suc k)), c, [Dispatch])) \<and>
         (fetch env ctx (includeCookies_of opts) k = Inr resp \<and>
          isResponseOk opts resp = Inr True \<and> parsed_payload env opts resp = Inr None \<longrightarrow>
            dispatch_loop env opts ctx key c m k =
              (createErrorResponse env (Suc k) (message_object (JStr ''Response validation failed''))
                 (Some (status resp)) (generateRequestId env) (elapsed env (Suc k)), c, [Dispatch]))"
proof (intro conjI impI)
  assume a: "fetch env ctx (includeCookies_of opts) k = Inl e \<and>
          \<not> (\<not> isAbortError e \<and> isNetworkError e \<and> int k < retries_of opts)"
  then have "attempt env opts ctx key c m k = Return (caught_failure env k e) c [Dispatch]"
    using attempt_fetch_throws[of env ctx opts k e key c m] catch_block_final[of e k opts env c m]
    by simp
  then show "dispatch_loop env opts ctx key c m k = (caught_failure env k e, c, [Dispatch])"
    using assms by (rule dispatch_loop_Return[rotated])
next
  assume a: "fetch env ctx (includeCookies_of opts) k = Inr resp \<and>
          isResponseOk opts resp = Inr False \<and> error_payload env opts resp = Inr None"
  then have "attempt env opts ctx key c m k =
     Return (createErrorResponse env (Suc k) (message_object (JStr ''Error validation failed''))
                 (Some (status resp)) (generateRequestId env) (elapsed env (Suc k))) c [Dispatch]"
    by (simp add: attempt_not_ok error_path_rejected)
  then show "dispatch_loop env opts ctx key c m k =
              (createErrorResponse env (Suc k) (message_object (JStr ''Error validation failed''))
                 (Some (status resp)) (generateRequestId env) (elapsed env (Suc k)), c, [Dispatch])"
    using assms by (rule dispatch_loop_Return[rotated])
next
  assume a: "fetch env ctx (includeCookies_of opts) k = Inr resp \<and>
          isResponseOk opts resp = Inr True \<and> parsed_payload env opts resp = Inr None"
  then have "attempt env opts ctx key c m k =
     Return (createErrorResponse env (Suc k) (message_object (JStr ''Response validation failed''))
                 (Some (status resp)) (generateRequestId env) (elapsed env (Suc k))) c [Dispatch]"
    by (simp add: attempt_ok success_path_rejected)
  then show "dispatch_loop env opts ctx key c m k =
              (createErrorResponse env (Suc k) (message_object (JStr ''Response validation failed''))
                 (Some (status resp)) (generateRequestId env) (elapsed env (Suc k)), c, [Dispatch])"
    using assms by (rule dispatch_loop_Return[rotated])
qed

text \<open>
  The payload functions return \<open>None\<close> exactly when the guard in question is configured
  and returns false on the parsed body.
\<close>

lemma error_payload_rejected_iff:
  "parseResponseBody env resp = Inr raw \<Longrightarrow> error_data raw = Inr ed \<Longrightarrow>
   errorGuard opts = Some g \<Longrightarrow> g ed = Inr False \<Longrightarrow> error_payload env opts resp = Inr None"
  by (simp add: error_payload_def error_guard_accepts_def)

lemma error_payload_None_guard:
  "error_payload env opts resp = Inr None \<Longrightarrow>
   \<exists>raw ed g. parseResponseBody env resp = Inr raw \<and> error_data raw = Inr ed \<and>
     errorGuard opts = Some g \<and> g ed = Inr False"
  by (auto simp: error_payload_def error_guard_accepts_def split: sum.splits if_splits option.splits)

lemma parsed_payload_rejected:
  "\<not> isBinaryContentType (default_to [] (headers_get (resp_headers resp) ''content-type'')) \<Longrightarrow>
   parseResponseBody env resp = Inr raw \<Longrightarrow> responseGuard opts = Some g \<Longrightarrow> g raw = Inr False \<Longrightarrow>
   parsed_payload env opts resp = Inr None"
  by (simp add: parsed_payload_def)

lemma parsed_payload_None_guard:
  "parsed_payload env opts resp = Inr None \<Longrightarrow>
   \<exists>raw g. \<not> isBinaryContentType (default_to [] (headers_get (resp_headers resp) ''content-type'')) \<and>
     parseResponseBody env resp = Inr raw \<and> responseGuard opts = Some g \<and> g raw = Inr False"
  by (auto simp: parsed_payload_def Let_def split: sum.splits if_splits option.splits)


text \<open>
  Claim C10. An attempt that ends in a transport exception that is not retried (timeout,
  network error with no retry left, or any other exception), in an error-guard rejection,
  or in a response-guard rejection returns its Failure directly: the events from this
  attempt on are the single dispatch, so the response interceptor is not invoked, and the
  cache is returned unchanged, whatever the cache key, that is also with caching enabled.
\<close>

theorem direct_failures_bypass_interceptor_and_cache:
  assumes "int k \<le> retries_of opts"
  shows "(fetch env ctx (includeCookies_of opts) k = Inl e \<and>
          \<not> (\<not> isAbortError e \<and> isNetworkError e \<and> int k < retries_of opts) \<longrightarrow>
            dispatch_loop env opts ctx key c m k = (caught_failure env k e, c, [Dispatch])) \<and>
         (fetch env ctx (includeCookies_of opts) k = Inr resp \<and>
          isResponseOk opts resp = Inr False \<and>
          parseResponseBody env resp = Inr raw \<and> error_data raw = Inr errorData \<and>
          errorGuard opts = Some g \<and> g errorData = Inr False \<longrightarrow>
            dispatch_loop env opts ctx key c m k =
              (createErrorResponse env (Suc k) (message_object (JStr ''Error validation failed''))
                 (Some (status resp)) (generateRequestId env) (elapsed env (Suc k)), c, [Dispatch])) \<and>
         (fetch env ctx (includeCookies_of opts) k = Inr resp \<and>
          isResponseOk opts resp = Inr True \<and>
          \<not> isBinaryContentType (default_to [] (headers_get (resp_headers resp) ''content-type'')) \<and>
          parseResponseBody env resp = Inr raw \<and>
          responseGuard opts = Some g \<and> g raw = Inr False \<longrightarrow>
            dispatch_loop env opts ctx key c m k =
              (createErrorResponse env (Suc k) (message_object (JStr ''Response validation failed''))
                 (Some (status resp)) (generateRequestId env) (elapsed env (Suc k)), c, [Dispatch]))"
  using direct_failure_exits[OF assms, of env ctx e key c m resp]
        error_payload_rejected_iff[of env resp raw errorData opts g]
        parsed_payload_rejected[of resp env raw opts g]
  by blast

theorem direct_failures_witness:
  "int 0 \<le> retries_of busy_options \<and>
   fetch (test_env (\<lambda>k. Inl boom)) (plain_context ''u'') (includeCookies_of busy_options) 0 = Inl boom \<and>
   dispatch_loop (test_env (\<lambda>k. Inl boom)) busy_options (plain_context ''u'') (Some ''GET:u:$'')
     Map.empty (JStr ''Maximum retry count reached'') 0 =
     (Failure (JObj [(''message'', JStr ''boom'')]) None 1001 ''rid'' 10 None, Map.empty, [Dispatch]) \<and>
   errorGuard busy_options = Some rejecting_guard \<and>
   rejecting_guard (JObj [(''message'', JStr ''missing'')]) = Inr False \<and>
   dispatch_loop (test_env (always_answers 404 ''missing'')) busy_options (plain_context ''u'')
     (Some ''GET:u:$'') Map.empty (JStr ''Maximum retry count reached'') 0 =
     (Failure (JObj [(''message'', JStr ''Error validation failed'')]) (Some 404) 1001 ''rid'' 10 None,
      Map.empty, [Dispatch]) \<and>
   responseGuard busy_options = Some rejecting_guard \<and>
   rejecting_guard (JStr ''hello'') = Inr False \<and>
   dispatch_loop (test_env (always_answers 200 ''hello'')) busy_options (plain_context ''u'')
     (Some ''GET:u:$'') Map.empty (JStr ''Maximum retry count reached'') 0 =
     (Failure (JObj [(''message'', JStr ''Response validation failed'')]) (Some 200) 1001 ''rid'' 10 None,
      Map.empty, [Dispatch])"
proof -
  let ?e4 = "test_env (always_answers 404 ''missing'')"
  let ?e2 = "test_env (always_answers 200 ''hello'')"
  let ?r4 = "text_response 404 ''missing''"
  let ?r2 = "text_response 200 ''hello''"
  let ?m0 = "JStr ''Maximum retry count reached''"
  have run: "int 0 \<le> retries_of busy_options"
    by (simp add: busy_options_def fixture_defs option_defs)
  note t = direct_failures_bypass_interceptor_and_cache[OF run]
  have a1: "fetch (test_env (\<lambda>k. Inl boom)) (plain_context ''u'') (includeCookies_of busy_options) 0 = Inl boom \<and>
            \<not> (\<not> isAbortError boom \<and> isNetworkError boom \<and> int 0 < retries_of busy_options)"
    by (simp add: busy_options_def fixture_defs option_defs)
  have a2: "fetch ?e4 (plain_context ''u'') (includeCookies_of busy_options) 0 = Inr ?r4 \<and>
            isResponseOk busy_options ?r4 = Inr False \<and>
            parseResponseBody ?e4 ?r4 = Inr (JStr ''missing'') \<and>
            error_data (JStr ''missing'') = Inr (JObj [(''message'', JStr ''missing'')]) \<and>
            errorGuard busy_options = Some rejecting_guard \<and>
            rejecting_guard (JObj [(''message'', JStr ''missing'')]) = Inr False"
    by (simp add: busy_options_def fixture_defs option_defs body_defs)
  have a3: "fetch ?e2 (plain_context ''u'') (includeCookies_of busy_options) 0 = Inr ?r2 \<and>
            isResponseOk busy_options ?r2 = Inr True \<and>
            \<not> isBinaryContentType (default_to [] (headers_get (resp_headers ?r2) ''content-type'')) \<and>
            parseResponseBody ?e2 ?r2 = Inr (JStr ''hello'') \<and>
            responseGuard busy_options = Some rejecting_guard \<and>
            rejecting_guard (JStr ''hello'') = Inr False"
    by (simp add: busy_options_def fixture_defs option_defs body_defs)
  have c1: "dispatch_loop (test_env (\<lambda>k. Inl boom)) busy_options (plain_context ''u'')
              (Some ''GET:u:$'') Map.empty ?m0 0 =
              (caught_failure (test_env (\<lambda>k. Inl boom)) 0 boom, Map.empty, [Dispatch])"
    by (rule t[where env="test_env (\<lambda>k. Inl boom)" and ctx="plain_context ''u''" and e=boom
                 and key="Some ''GET:u:$''" and c=Map.empty and m="?m0",
               THEN conjunct1, THEN mp, OF a1])
  have c2: "dispatch_loop ?e4 busy_options (plain_context ''u'') (Some ''GET:u:$'') Map.empty ?m0 0 =
              (createErrorResponse ?e4 (Suc 0) (message_object (JStr ''Error validation failed''))
                 (Some (status ?r4)) (generateRequestId ?e4) (elapsed ?e4 (Suc 0)), Map.empty, [Dispatch])"
    by (rule t[where env="?e4" and ctx="plain_context ''u''" and resp="?r4" and raw="JStr ''missing''"
                 and errorData="JObj [(''message'', JStr ''missing'')]" and g=rejecting_guard
                 and key="Some ''GET:u:$''" and c=Map.empty and m="?m0",
               THEN conjunct2, THEN conjunct1, THEN mp, OF a2])
  have c3: "dispatch_loop ?e2 busy_options (plain_context ''u'') (Some ''GET:u:$'') Map.empty ?m0 0 =
              (createErrorResponse ?e2 (Suc 0) (message_object (JStr ''Response validation failed''))
                 (Some (status ?r2)) (generateRequestId ?e2) (elapsed ?e2 (Suc 0)), Map.empty, [Dispatch])"
    by (rule t[where env="?e2" and ctx="plain_context ''u''" and resp="?r2" and raw="JStr ''hello''"
                 and g=rejecting_guard and key="Some ''GET:u:$''" and c=Map.empty and m="?m0",
               THEN conjunct2, THEN conjunct2, THEN mp, OF a3])
  have v1: "caught_failure (test_env (\<lambda>k. Inl boom)) 0 boom =
              Failure (JObj [(''message'', JStr ''boom'')]) None 1001 ''rid'' 10 None"
    by (simp add: outcome_defs message_object_def fixture_defs)
  have v2: "createErrorResponse ?e4 (Suc 0) (message_object (JStr ''Error validation failed''))
                 (Some (status ?r4)) (generateRequestId ?e4) (elapsed ?e4 (Suc 0)) =
            Failure (JObj [(''message'', JStr ''Error validation failed'')]) (Some 404) 1001 ''rid'' 10 None"
    by (simp add: outcome_defs message_object_def fixture_defs)
  have v3: "createErrorResponse ?e2 (Suc 0) (message_object (JStr ''Response validation failed''))
                 (Some (status ?r2)) (generateRequestId ?e2) (elapsed ?e2 (Suc 0)) =
            Failure (JObj [(''message'', JStr ''Response validation failed'')]) (Some 200) 1001 ''rid'' 10 None"
    by (simp add: outcome_defs message_object_def fixture_defs)
  show ?thesis
    using run a1 a2 a3 c1[unfolded v1] c2[unfolded v2] c3[unfolded v3] by simp
qed

subsection \<open>What the payload functions return, and what they ignore\<close>











subsection \<open>The response interceptor\<close>

text \<open>
  Claim C2, amended. The claim as stated fails: the engine keeps the interceptor's outcome
  only when it has the variant of the terminal outcome (\<open>if (!result.isSuccess)\<close> on the
  failure path, \<open>if (result.isSuccess)\<close> on the success path); the instance after the
  theorem has an interceptor answer a 404 with a Success and a 200 with a Failure, and both
  are dropped. What holds: when an attempt reaches a terminal outcome
  and the configured response interceptor returns an outcome \<open>r\<close>, the result of the call is
  \<open>r\<close> if \<open>r\<close> is a Failure on the failure path or a Success on the success path, and the
  engine's own terminal outcome otherwise; that result is also what is cached.
\<close>

theorem interceptor_outcome_adopted_only_in_same_variant:
  assumes run: "int k \<le> retries_of opts"
    and f: "fetch env ctx (includeCookies_of opts) k = Inr resp"
    and i: "onResponse opts = Some f"
    and e0: "e0 = createErrorResponse env (Suc k) te (Some (status resp)) (generateRequestId env)
                    (elapsed env (Suc k))"
    and s0: "s0 = createSuccessResponse env (Suc k) p (status resp) (collect_headers resp)
                    (generateRequestId env) (elapsed env (Suc k))"
  shows "(isResponseOk opts resp = Inr False \<and> error_payload env opts resp = Inr (Some te) \<and>
          \<not> ((status resp \<ge> 500 \<or> status resp = 429) \<and> int k < retries_of opts) \<and>
          f \<lparr>request = ctx, result = e0, rsp_durationMs = elapsed env (Suc k)\<rparr> = Inr r \<longrightarrow>
            dispatch_loop env opts ctx key c m k =
              (if isSuccess r then e0 else r,
               error_store key (status resp) (if isSuccess r then e0 else r) (date_now env (Suc k)) c,
               [Dispatch, ResponseIntercepted])) \<and>
         (isResponseOk opts resp = Inr True \<and> parsed_payload env opts resp = Inr (Some p) \<and>
          f \<lparr>request = ctx, result = s0, rsp_durationMs = elapsed env (Suc k)\<rparr> = Inr r \<longrightarrow>
            dispatch_loop env opts ctx key c m k =
              (if isSuccess r then r else s0,
               cache_set key (if isSuccess r then r else s0) (date_now env (Suc k)) c,
               [Dispatch, ResponseIntercepted]))"
proof (intro conjI impI)
  assume a: "isResponseOk opts resp = Inr False \<and> error_payload env opts resp = Inr (Some te) \<and>
          \<not> ((status resp \<ge> 500 \<or> status resp = 429) \<and> int k < retries_of opts) \<and>
          f \<lparr>request = ctx, result = e0, rsp_durationMs = elapsed env (Suc k)\<rparr> = Inr r"
  then have nok: "isResponseOk opts resp = Inr False"
    and p: "error_payload env opts resp = Inr (Some te)"
    and nr: "\<not> ((status resp \<ge> 500 \<or> status resp = 429) \<and> int k < retries_of opts)"
    and fr: "f \<lparr>request = ctx, result = createErrorResponse env (Suc k) te (Some (status resp))
               (generateRequestId env) (elapsed env (Suc k)), rsp_durationMs = elapsed env (Suc k)\<rparr> = Inr r"
    using e0 by simp_all
  have "attempt env opts ctx key c m k =
          Return (if isSuccess r then e0 else r)
            (error_store key (status resp) (if isSuccess r then e0 else r) (date_now env (Suc k)) c)
            [Dispatch, ResponseIntercepted]"
    by (simp add: attempt_not_ok[OF f nok] error_path_deliver[OF p nr]
          deliver_error_intercepted[OF i fr] Let_def e0)
  then show "dispatch_loop env opts ctx key c m k =
              (if isSuccess r then e0 else r,
               error_store key (status resp) (if isSuccess r then e0 else r) (date_now env (Suc k)) c,
               [Dispatch, ResponseIntercepted])"
    using run by (rule dispatch_loop_Return[rotated])
next
  assume a: "isResponseOk opts resp = Inr True \<and> parsed_payload env opts resp = Inr (Some p) \<and>
          f \<lparr>request = ctx, result = s0, rsp_durationMs = elapsed env (Suc k)\<rparr> = Inr r"
  then have ok: "isResponseOk opts resp = Inr True"
    and p: "parsed_payload env opts resp = Inr (Some p)"
    and fr: "f \<lparr>request = ctx, result = createSuccessResponse env (Suc k) p (status resp)
               (collect_headers resp) (generateRequestId env) (elapsed env (Suc k)),
               rsp_durationMs = elapsed env (Suc k)\<rparr> = Inr r"
    using s0 by simp_all
  have "attempt env opts ctx key c m k =
          Return (if isSuccess r then r else s0)
            (cache_set key (if isSuccess r then r else s0) (date_now env (Suc k)) c)
            [Dispatch, ResponseIntercepted]"
    by (simp add: attempt_ok[OF f ok] success_path_deliver[OF p]
          deliver_success_intercepted[OF i fr] Let_def s0)
  then show "dispatch_loop env opts ctx key c m k =
              (if isSuccess r then r else s0,
               cache_set key (if isSuccess r then r else s0) (date_now env (Suc k)) c,
               [Dispatch, ResponseIntercepted])"
    using run by (rule dispatch_loop_Return[rotated])
qed

theorem interceptor_same_variant_witness:
  "int 0 \<le> retries_of ((plain_options ''u'')\<lparr>onResponse := Some substitute_failure\<rparr>) \<and>
   onResponse ((plain_options ''u'')\<lparr>onResponse := Some substitute_failure\<rparr>) = Some substitute_failure \<and>
   dispatch_loop (test_env (always_answers 404 ''missing''))
     ((plain_options ''u'')\<lparr>onResponse := Some substitute_failure\<rparr>) (plain_context ''u'')
     None Map.empty (JStr ''Maximum retry count reached'') 0 =
     (Failure (JObj [(''message'', JStr ''vetoed'')]) (Some 418) 0 ''other'' 0 None, Map.empty,
      [Dispatch, ResponseIntercepted]) \<and>
   onResponse ((plain_options ''u'')\<lparr>onResponse := Some substitute_success\<rparr>) = Some substitute_success \<and>
   dispatch_loop (test_env (always_answers 200 ''hello''))
     ((plain_options ''u'')\<lparr>onResponse := Some substitute_success\<rparr>) (plain_context ''u'')
     None Map.empty (JStr ''Maximum retry count reached'') 0 =
     (Success (JStr ''fine'') 200 0 [] ''other'' 0, Map.empty, [Dispatch, ResponseIntercepted])"
proof -
  let ?ee = "test_env (always_answers 404 ''missing'')"
  let ?es = "test_env (always_answers 200 ''hello'')"
  let ?oe = "(plain_options ''u'')\<lparr>onResponse := Some substitute_failure\<rparr>"
  let ?os = "(plain_options ''u'')\<lparr>onResponse := Some substitute_success\<rparr>"
  let ?re = "text_response 404 ''missing''"
  let ?rs = "text_response 200 ''hello''"
  let ?te = "JObj [(''message'', JStr ''missing'')]"
  let ?e0 = "createErrorResponse ?ee (Suc 0) ?te (Some (status ?re)) (generateRequestId ?ee) (elapsed ?ee (Suc 0))"
  let ?s0e = "createSuccessResponse ?ee (Suc 0) JNull (status ?re) (collect_headers ?re)
                (generateRequestId ?ee) (elapsed ?ee (Suc 0))"
  let ?e0s = "createErrorResponse ?es (Suc 0) JNull (Some (status ?rs)) (generateRequestId ?es) (elapsed ?es (Suc 0))"
  let ?s0 = "createSuccessResponse ?es (Suc 0) (JStr ''hello'') (status ?rs) (collect_headers ?rs)
                (generateRequestId ?es) (elapsed ?es (Suc 0))"
  let ?rf = "Failure (JObj [(''message'', JStr ''vetoed'')]) (Some 418) 0 ''other'' 0 None"
  let ?rsu = "Success (JStr ''fine'') 200 0 [] ''other'' 0"
  have run_e: "int 0 \<le> retries_of ?oe" by (simp add: fixture_defs option_defs)
  have run_s: "int 0 \<le> retries_of ?os" by (simp add: fixture_defs option_defs)
  have fe: "fetch ?ee (plain_context ''u'') (includeCookies_of ?oe) 0 = Inr ?re"
    by (simp add: fixture_defs)
  have fs: "fetch ?es (plain_context ''u'') (includeCookies_of ?os) 0 = Inr ?rs"
    by (simp add: fixture_defs)
  have ie: "onResponse ?oe = Some substitute_failure" by (simp add: fixture_defs)
  have ios: "onResponse ?os = Some substitute_success" by (simp add: fixture_defs)
  have he: "isResponseOk ?oe ?re = Inr False \<and> error_payload ?ee ?oe ?re = Inr (Some ?te) \<and>
            \<not> ((status ?re \<ge> 500 \<or> status ?re = 429) \<and> int 0 < retries_of ?oe) \<and>
            substitute_failure \<lparr>request = plain_context ''u'', result = ?e0,
              rsp_durationMs = elapsed ?ee (Suc 0)\<rparr> = Inr ?rf"
    by (simp add: fixture_defs option_defs body_defs)
  have hs: "isResponseOk ?os ?rs = Inr True \<and> parsed_payload ?es ?os ?rs = Inr (Some (JStr ''hello'')) \<and>
            substitute_success \<lparr>request = plain_context ''u'', result = ?s0,
              rsp_durationMs = elapsed ?es (Suc 0)\<rparr> = Inr ?rsu"
    by (simp add: fixture_defs option_defs body_defs)
  have c1: "dispatch_loop ?ee ?oe (plain_context ''u'') None Map.empty (JStr ''Maximum retry count reached'') 0 =
              (if isSuccess ?rf then ?e0 else ?rf,
               error_store None (status ?re) (if isSuccess ?rf then ?e0 else ?rf) (date_now ?ee (Suc 0)) Map.empty,
               [Dispatch, ResponseIntercepted])"
    by (rule interceptor_outcome_adopted_only_in_same_variant[OF run_e fe ie refl refl,
               THEN conjunct1, THEN mp, OF he])
  have c2: "dispatch_loop ?es ?os (plain_context ''u'') None Map.empty (JStr ''Maximum retry count reached'') 0 =
              (if isSuccess ?rsu then ?rsu else ?s0,
               cache_set None (if isSuccess ?rsu then ?rsu else ?s0) (date_now ?es (Suc 0)) Map.empty,
               [Dispatch, ResponseIntercepted])"
    by (rule interceptor_outcome_adopted_only_in_same_variant[OF run_s fs ios refl refl,
               THEN conjunct2, THEN mp, OF hs])
  have v1: "(if isSuccess ?rf then ?e0 else ?rf) = ?rf" by simp
  have v2: "(if isSuccess ?rsu then ?rsu else ?s0) = ?rsu" by simp
  have k1: "error_store None (status ?re) ?rf (date_now ?ee (Suc 0)) Map.empty = Map.empty"
    by (simp add: error_store_def cache_set_def)
  have k2: "cache_set None ?rsu (date_now ?es (Suc 0)) Map.empty = Map.empty"
    by (simp add: cache_set_def)
  show ?thesis
    using run_e ie c1[unfolded v1 k1] ios c2[unfolded v2 k2] by (intro conjI)
qed

theorem interceptor_flip_counterexample:
  "substitute_success
     \<lparr>request = plain_context ''u'',
      result = Failure (JObj [(''message'', JStr ''missing'')]) (Some 404) 1001 ''rid'' 10 None,
      rsp_durationMs = 10\<rparr> = Inr (Success (JStr ''fine'') 200 0 [] ''other'' 0) \<and>
   CustomFetch (test_env (always_answers 404 ''missing''))
     ((plain_options ''u'')\<lparr>onResponse := Some substitute_success\<rparr>) Map.empty =
     (Inr (Failure (JObj [(''message'', JStr ''missing'')]) (Some 404) 1001 ''rid'' 10 None),
      Map.empty, [Dispatch, ResponseIntercepted]) \<and>
   CustomFetch (test_env (always_answers 200 ''hello''))
     ((plain_options ''u'')\<lparr>onResponse := Some substitute_failure\<rparr>) Map.empty =
     (Inr (Success (JStr ''hello'') 200 1001 [(''content-type'', Single ''text/plain'')] ''rid'' 10),
      Map.empty, [Dispatch, ResponseIntercepted])"
  by (simp add: fixture_defs option_defs body_defs outcome_defs call_defs)

subsection \<open>Exceptions of the interceptors\<close>

lemma response_interceptor_exception_caught:
  assumes run: "int k \<le> retries_of opts"
    and f: "fetch env ctx (includeCookies_of opts) k = Inr resp"
    and i: "onResponse opts = Some f"
    and e0: "e0 = createErrorResponse env (Suc k) te (Some (status resp)) (generateRequestId env)
                    (elapsed env (Suc k))"
    and s0: "s0 = createSuccessResponse env (Suc k) p (status resp) (collect_headers resp)
                    (generateRequestId env) (elapsed env (Suc k))"
    and final: "\<not> (\<not> isAbortError e \<and> isNetworkError e \<and> int k < retries_of opts)"
  shows "(isResponseOk opts resp = Inr False \<and> error_payload env opts resp = Inr (Some te) \<and>
          \<not> ((status resp \<ge> 500 \<or> status resp = 429) \<and> int k < retries_of opts) \<and>
          f \<lparr>request = ctx, result = e0, rsp_durationMs = elapsed env (Suc k)\<rparr> = Inl e \<longrightarrow>
            dispatch_loop env opts ctx key c m k =
              (caught_failure env k e, c, [Dispatch, ResponseIntercepted])) \<and>
         (isResponseOk opts resp = Inr True \<and> parsed_payload env opts resp = Inr (Some p) \<and>
          f \<lparr>request = ctx, result = s0, rsp_durationMs = elapsed env (Suc k)\<rparr> = Inl e \<longrightarrow>
            dispatch_loop env opts ctx key c m k =
              (caught_failure env k e, c, [Dispatch, ResponseIntercepted]))"
proof (intro conjI impI)
  assume a: "isResponseOk opts resp = Inr False \<and> error_payload env opts resp = Inr (Some te) \<and>
          \<not> ((status resp \<ge> 500 \<or> status resp = 429) \<and> int k < retries_of opts) \<and>
          f \<lparr>request = ctx, result = e0, rsp_durationMs = elapsed env (Suc k)\<rparr> = Inl e"
  then have nok: "isResponseOk opts resp = Inr False"
    and p: "error_payload env opts resp = Inr (Some te)"
    and nr: "\<not> ((status resp \<ge> 500 \<or> status resp = 429) \<and> int k < retries_of opts)"
    and fr: "f \<lparr>request = ctx, result = createErrorResponse env (Suc k) te (Some (status resp))
               (generateRequestId env) (elapsed env (Suc k)), rsp_durationMs = elapsed env (Suc k)\<rparr> = Inl e"
    using e0 by simp_all
  have "attempt env opts ctx key c m k =
          Return (caught_failure env k e) c [Dispatch, ResponseIntercepted]"
    by (simp add: attempt_not_ok[OF f nok] error_path_deliver[OF p nr]
          deliver_error_interceptor_throws[OF i fr] catch_block_final[OF final])
  then show "dispatch_loop env opts ctx key c m k =
              (caught_failure env k e, c, [Dispatch, ResponseIntercepted])"
    using run by (rule dispatch_loop_Return[rotated])
next
  assume a: "isResponseOk opts resp = Inr True \<and> parsed_payload env opts resp = Inr (Some p) \<and>
          f \<lparr>request = ctx, result = s0, rsp_durationMs = elapsed env (Suc k)\<rparr> = Inl e"
  then have ok: "isResponseOk opts resp = Inr True"
    and p: "parsed_payload env opts resp = Inr (Some p)"
    and fr: "f \<lparr>request = ctx, result = createSuccessResponse env (Suc k) p (status resp)
               (collect_headers resp) (generateRequestId env) (elapsed env (Suc k)),
               rsp_durationMs = elapsed env (Suc k)\<rparr> = Inl e"
    using s0 by simp_all
  have "attempt env opts ctx key c m k =
          Return (caught_failure env k e) c [Dispatch, ResponseIntercepted]"
    by (simp add: attempt_ok[OF f ok] success_path_deliver[OF p]
          deliver_success_interceptor_throws[OF i fr] catch_block_final[OF final])
  then show "dispatch_loop env opts ctx key c m k =
              (caught_failure env k e, c, [Dispatch, ResponseIntercepted])"
    using run by (rule dispatch_loop_Return[rotated])
qed

text \<open>
  Claim C3, amended. The claim as stated fails for the response interceptor, which is
  called inside the \<open>try\<close> block: the instance after the theorem shows its exception
  turned into a Failure. What holds: an exception raised by the request interceptor is not
  caught and is what the call rejects with, before any dispatch and with the cache
  untouched; an exception raised by the response interceptor on a terminal outcome is
  caught by the engine's \<open>catch\<close> block and, unless it is retried as a network error,
  becomes the Failure that block builds (status 408 for an \<open>AbortError\<close>, otherwise no
  status and the exception's message).
\<close>

theorem request_interceptor_exception_propagates_response_caught:
  "(initial_context env opts = Inr ctx0 \<and> onRequest opts = Some h \<and> h ctx0 = Inl e' \<longrightarrow>
      CustomFetch env opts c = (Inl e', c, [RequestIntercepted])) \<and>
   (int k \<le> retries_of opts \<and>
    fetch env ctx (includeCookies_of opts) k = Inr resp \<and>
    onResponse opts = Some f \<and>
    \<not> (\<not> isAbortError e \<and> isNetworkError e \<and> int k < retries_of opts) \<and>
    isResponseOk opts resp = Inr False \<and> error_payload env opts resp = Inr (Some te) \<and>
    \<not> ((status resp \<ge> 500 \<or> status resp = 429) \<and> int k < retries_of opts) \<and>
    f \<lparr>request = ctx,
       result = createErrorResponse env (Suc k) te (Some (status resp)) (generateRequestId env)
                  (elapsed env (Suc k)),
       rsp_durationMs = elapsed env (Suc k)\<rparr> = Inl e \<longrightarrow>
      dispatch_loop env opts ctx key c m k =
        (caught_failure env k e, c, [Dispatch, ResponseIntercepted])) \<and>
   (int k \<le> retries_of opts \<and>
    fetch env ctx (includeCookies_of opts) k = Inr resp \<and>
    onResponse opts = Some f \<and>
    \<not> (\<not> isAbortError e \<and> isNetworkError e \<and> int k < retries_of opts) \<and>
    isResponseOk opts resp = Inr True \<and> parsed_payload env opts resp = Inr (Some p) \<and>
    f \<lparr>request = ctx,
       result = createSuccessResponse env (Suc k) p (status resp) (collect_headers resp)
                  (generateRequestId env) (elapsed env (Suc k)),
       rsp_durationMs = elapsed env (Suc k)\<rparr> = Inl e \<longrightarrow>
      dispatch_loop env opts ctx key c m k =
        (caught_failure env k e, c, [Dispatch, ResponseIntercepted]))"
proof (intro conjI impI)
  assume "initial_context env opts = Inr ctx0 \<and> onRequest opts = Some h \<and> h ctx0 = Inl e'"
  then show "CustomFetch env opts c = (Inl e', c, [RequestIntercepted])"
    by (simp add: CustomFetch_def intercept_request_def)
next
  assume a: "int k \<le> retries_of opts \<and>
    fetch env ctx (includeCookies_of opts) k = Inr resp \<and>
    onResponse opts = Some f \<and>
    \<not> (\<not> isAbortError e \<and> isNetworkError e \<and> int k < retries_of opts) \<and>
    isResponseOk opts resp = Inr False \<and> error_payload env opts resp = Inr (Some te) \<and>
    \<not> ((status resp \<ge> 500 \<or> status resp = 429) \<and> int k < retries_of opts) \<and>
    f \<lparr>request = ctx,
       result = createErrorResponse env (Suc k) te (Some (status resp)) (generateRequestId env)
                  (elapsed env (Suc k)),
       rsp_durationMs = elapsed env (Suc k)\<rparr> = Inl e"
  then show "dispatch_loop env opts ctx key c m k =
        (caught_failure env k e, c, [Dispatch, ResponseIntercepted])"
    using response_interceptor_exception_caught[of k opts env ctx resp f _ te _ JNull e key c m]
    by simp
next
  assume a: "int k \<le> retries_of opts \<and>
    fetch env ctx (includeCookies_of opts) k = Inr resp \<and>
    onResponse opts = Some f \<and>
    \<not> (\<not> isAbortError e \<and> isNetworkError e \<and> int k < retries_of opts) \<and>
    isResponseOk opts resp = Inr True \<and> parsed_payload env opts resp = Inr (Some p) \<and>
    f \<lparr>request = ctx,
       result = createSuccessResponse env (Suc k) p (status resp) (collect_headers resp)
                  (generateRequestId env) (elapsed env (Suc k)),
       rsp_durationMs = elapsed env (Suc k)\<rparr> = Inl e"
  then show "dispatch_loop env opts ctx key c m k =
        (caught_failure env k e, c, [Dispatch, ResponseIntercepted])"
    using response_interceptor_exception_caught[of k opts env ctx resp f _ JNull _ p e key c m]
    by simp
qed

theorem interceptor_exception_witness:
  "initial_context (test_env (always_answers 200 ''hello''))
     ((plain_options ''u'')\<lparr>onRequest := Some throwing_request_interceptor\<rparr>) =
     Inr (plain_context ''u'') \<and>
   throwing_request_interceptor (plain_context ''u'') = Inl boom \<and>
   CustomFetch (test_env (always_answers 200 ''hello''))
     ((plain_options ''u'')\<lparr>onRequest := Some throwing_request_interceptor\<rparr>) Map.empty =
     (Inl boom, Map.empty, [RequestIntercepted]) \<and>
   dispatch_loop (test_env (always_answers 404 ''missing''))
     ((plain_options ''u'')\<lparr>onResponse := Some throwing_interceptor\<rparr>) (plain_context ''u'')
     None Map.empty (JStr ''Maximum retry count reached'') 0 =
     (Failure (JObj [(''message'', JStr ''boom'')]) None 1001 ''rid'' 10 None, Map.empty,
      [Dispatch, ResponseIntercepted]) \<and>
   dispatch_loop (test_env (always_answers 200 ''hello''))
     ((plain_options ''u'')\<lparr>onResponse := Some throwing_interceptor\<rparr>) (plain_context ''u'')
     None Map.empty (JStr ''Maximum retry count reached'') 0 =
     (Failure (JObj [(''message'', JStr ''boom'')]) None 1001 ''rid'' 10 None, Map.empty,
      [Dispatch, ResponseIntercepted])"
proof -
  let ?ee = "test_env (always_answers 404 ''missing'')"
  let ?es = "test_env (always_answers 200 ''hello'')"
  let ?oq = "(plain_options ''u'')\<lparr>onRequest := Some throwing_request_interceptor\<rparr>"
  let ?ot = "(plain_options ''u'')\<lparr>onResponse := Some throwing_interceptor\<rparr>"
  let ?re = "text_response 404 ''missing''"
  let ?rs = "text_response 200 ''hello''"
  let ?te = "JObj [(''message'', JStr ''missing'')]"
  let ?m0 = "JStr ''Maximum retry count reached''"
  note t = request_interceptor_exception_propagates_response_caught
  have q: "initial_context ?es ?oq = Inr (plain_context ''u'') \<and>
           onRequest ?oq = Some throwing_request_interceptor \<and>
           throwing_request_interceptor (plain_context ''u'') = Inl boom"
    by (simp add: fixture_defs option_defs call_defs)
  have q1: "initial_context ?es ?oq = Inr (plain_context ''u'')" using q by (elim conjE)
  have q2: "throwing_request_interceptor (plain_context ''u'') = Inl boom" using q by (elim conjE)
  have c1: "CustomFetch ?es ?oq Map.empty = (Inl boom, Map.empty, [RequestIntercepted])"
    by (rule t[where opts="?oq" and h=throwing_request_interceptor and env="?es" and e'=boom
                 and ctx0="plain_context ''u''" and c=Map.empty, THEN conjunct1, THEN mp, OF q])
  have he: "int 0 \<le> retries_of ?ot \<and>
    fetch ?ee (plain_context ''u'') (includeCookies_of ?ot) 0 = Inr ?re \<and>
    onResponse ?ot = Some throwing_interceptor \<and>
    \<not> (\<not> isAbortError boom \<and> isNetworkError boom \<and> int 0 < retries_of ?ot) \<and>
    isResponseOk ?ot ?re = Inr False \<and> error_payload ?ee ?ot ?re = Inr (Some ?te) \<and>
    \<not> ((status ?re \<ge> 500 \<or> status ?re = 429) \<and> int 0 < retries_of ?ot) \<and>
    throwing_interceptor \<lparr>request = plain_context ''u'',
       result = createErrorResponse ?ee (Suc 0) ?te (Some (status ?re)) (generateRequestId ?ee)
                  (elapsed ?ee (Suc 0)),
       rsp_durationMs = elapsed ?ee (Suc 0)\<rparr> = Inl boom"
    by (simp add: fixture_defs option_defs body_defs)
  have hs: "int 0 \<le> retries_of ?ot \<and>
    fetch ?es (plain_context ''u'') (includeCookies_of ?ot) 0 = Inr ?rs \<and>
    onResponse ?ot = Some throwing_interceptor \<and>
    \<not> (\<not> isAbortError boom \<and> isNetworkError boom \<and> int 0 < retries_of ?ot) \<and>
    isResponseOk ?ot ?rs = Inr True \<and> parsed_payload ?es ?ot ?rs = Inr (Some (JStr ''hello'')) \<and>
    throwing_interceptor \<lparr>request = plain_context ''u'',
       result = createSuccessResponse ?es (Suc 0) (JStr ''hello'') (status ?rs) (collect_headers ?rs)
                  (generateRequestId ?es) (elapsed ?es (Suc 0)),
       rsp_durationMs = elapsed ?es (Suc 0)\<rparr> = Inl boom"
    by (simp add: fixture_defs option_defs body_defs)
  have c3: "dispatch_loop ?ee ?ot (plain_context ''u'') None Map.empty ?m0 0 =
              (caught_failure ?ee 0 boom, Map.empty, [Dispatch, ResponseIntercepted])"
    by (rule t[where opts="?ot" and env="?ee" and k=0 and ctx="plain_context ''u''" and resp="?re"
                 and f=throwing_interceptor and e=boom and te="?te" and key=None and c=Map.empty
                 and m="?m0",
               THEN conjunct2, THEN conjunct1, THEN mp, OF he])
  have c4: "dispatch_loop ?es ?ot (plain_context ''u'') None Map.empty ?m0 0 =
              (caught_failure ?es 0 boom, Map.empty, [Dispatch, ResponseIntercepted])"
    by (rule t[where opts="?ot" and env="?es" and k=0 and ctx="plain_context ''u''" and resp="?rs"
                 and f=throwing_interceptor and e=boom and p="JStr ''hello''" and key=None
                 and c=Map.empty and m="?m0",
               THEN conjunct2, THEN conjunct2, THEN mp, OF hs])
  have v3: "caught_failure ?ee 0 boom = Failure (JObj [(''message'', JStr ''boom'')]) None 1001 ''rid'' 10 None"
    by (simp add: outcome_defs message_object_def fixture_defs)
  have v4: "caught_failure ?es 0 boom = Failure (JObj [(''message'', JStr ''boom'')]) None 1001 ''rid'' 10 None"
    by (simp add: outcome_defs message_object_def fixture_defs)
  show ?thesis
    using q1 q2 c1 c3[unfolded v3] c4[unfolded v4] by (intro conjI)
qed

theorem response_interceptor_exception_counterexample:
  "throwing_interceptor
     \<lparr>request = plain_context ''u'',
      result = Success (JStr ''hello'') 200 1001 [(''content-type'', Single ''text/plain'')] ''rid'' 10,
      rsp_durationMs = 10\<rparr> = Inl boom \<and>
   CustomFetch (test_env (always_answers 200 ''hello''))
     ((plain_options ''u'')\<lparr>onResponse := Some throwing_interceptor\<rparr>) Map.empty =
     (Inr (Failure (JObj [(''message'', JStr ''boom'')]) None 1001 ''rid'' 10 None),
      Map.empty, [Dispatch, ResponseIntercepted])"
  by (simp add: fixture_defs option_defs body_defs outcome_defs call_defs)

subsection \<open>The cache probe\<close>

lemma cache_key_nonempty: "cache_key opts ctx = Some key \<Longrightarrow> key \<noteq> []"
  by (cases "ctx_method ctx") (auto simp: cache_key_def split: if_splits)

lemma dispatch_loop_starts_with_dispatch:
  assumes "int k \<le> retries_of opts"
  shows "\<exists>r c' tr. dispatch_loop env opts ctx key c m k = (r, c', Dispatch # tr)"
proof -
  have e: "\<exists>s. attempt env opts ctx key c m k = emit [Dispatch] s"
    unfolding attempt_def Let_def by (rule exI) (rule refl)
  then obtain s where s: "attempt env opts ctx key c m k = emit [Dispatch] s" by blast
  show ?thesis
  proof (cases s)
    case (Continue m' evs)
    obtain r c' tr where "dispatch_loop env opts ctx key c m' (Suc k) = (r, c', tr)"
      by (cases "dispatch_loop env opts ctx key c m' (Suc k)") auto
    then show ?thesis
      using s Continue assms by (simp add: dispatch_loop.simps[of env opts ctx key c m k])
  next
    case (Return r c' evs)
    then show ?thesis
      using s assms by (simp add: dispatch_loop.simps[of env opts ctx key c m k])
  qed
qed

lemma catch_block_Return:
  "catch_block env opts c m k e = Return r c' evs \<Longrightarrow> \<not> isSuccess r \<and> c' = c"
  by (auto simp: catch_block_def Let_def split: if_splits)

lemma emit_Return: "emit evs s = Return r c' tr \<Longrightarrow> \<exists>tr'. s = Return r c' tr'"
  by (cases s) auto

lemma try_bind_cases:
  "try_bind h x f = s \<Longrightarrow> (\<exists>e. x = Inl e \<and> s = h e) \<or> (\<exists>a. x = Inr a \<and> s = f a)"
  by (cases x) (auto simp: try_bind_def)

lemma deliver_error_Return:
  assumes "deliver_error env opts ctx key c k (catch_block env opts c m k) code te = Return r c' evs"
  shows "\<not> isSuccess r"
proof (cases "onResponse opts")
  case None
  then show ?thesis using assms by (auto simp: deliver_error_plain Let_def)
next
  case (Some f)
  let ?rc = "\<lparr>request = ctx,
            result = createErrorResponse env (Suc k) te (Some code) (generateRequestId env) (elapsed env (Suc k)),
            rsp_durationMs = elapsed env (Suc k)\<rparr>"
  show ?thesis
  proof (cases "f ?rc")
    case (Inl e)
    from assms have "emit [ResponseIntercepted] (catch_block env opts c m k e) = Return r c' evs"
      by (simp add: deliver_error_interceptor_throws[OF Some Inl])
    then show ?thesis using emit_Return catch_block_Return by blast
  next
    case (Inr r')
    then show ?thesis using assms by (auto simp: deliver_error_intercepted[OF Some Inr] Let_def split: if_splits)
  qed
qed

lemma deliver_success_Return:
  assumes "deliver_success env opts ctx key c k (catch_block env opts c m k) resp p = Return r c' evs"
    and "isSuccess r"
  shows "c' = cache_set key r (date_now env (Suc k)) c"
proof (cases "onResponse opts")
  case None
  then show ?thesis using assms by (auto simp: deliver_success_plain Let_def)
next
  case (Some f)
  let ?rc = "\<lparr>request = ctx,
            result = createSuccessResponse env (Suc k) p (status resp) (collect_headers resp)
                       (generateRequestId env) (elapsed env (Suc k)),
            rsp_durationMs = elapsed env (Suc k)\<rparr>"
  show ?thesis
  proof (cases "f ?rc")
    case (Inl e)
    from assms have "emit [ResponseIntercepted] (catch_block env opts c m k e) = Return r c' evs"
      by (simp add: deliver_success_interceptor_throws[OF Some Inl])
    then show ?thesis using emit_Return catch_block_Return assms(2) by blast
  next
    case (Inr r')
    then show ?thesis using assms by (auto simp: deliver_success_intercepted[OF Some Inr] Let_def split: if_splits)
  qed
qed

lemma error_path_Return:
  assumes "error_path env opts ctx key c k (catch_block env opts c m k) resp = Return r c' evs"
  shows "\<not> isSuccess r"
proof -
  let ?h = "catch_block env opts c m k"
  from assms consider
    (threw) e where "?h e = Return r c' evs"
    | (rejected) "r = createErrorResponse env (Suc k) (message_object (JStr ''Error validation failed''))
                      (Some (status resp)) (generateRequestId env) (elapsed env (Suc k))"
    | (delivered) te where "deliver_error env opts ctx key c k ?h (status resp) te = Return r c' evs"
    by (auto simp: error_path_def Let_def try_bind_def split: sum.splits option.splits if_splits)
  then show ?thesis
  proof cases
    case threw then show ?thesis using catch_block_Return by blast
  next
    case rejected then show ?thesis by simp
  next
    case delivered then show ?thesis by (rule deliver_error_Return)
  qed
qed

lemma success_path_Return:
  assumes "success_path env opts ctx key c k (catch_block env opts c m k) resp = Return r c' evs"
    and "isSuccess r"
  shows "c' = cache_set key r (date_now env (Suc k)) c"
proof -
  let ?h = "catch_block env opts c m k"
  from assms(1) consider
    (threw) e where "?h e = Return r c' evs"
    | (rejected) "r = createErrorResponse env (Suc k) (message_object (JStr ''Response validation failed''))
                      (Some (status resp)) (generateRequestId env) (elapsed env (Suc k))"
    | (delivered) p where "deliver_success env opts ctx key c k ?h resp p = Return r c' evs"
    by (auto simp: success_path_def try_bind_def split: sum.splits option.splits)
  then show ?thesis
  proof cases
    case threw then show ?thesis using catch_block_Return assms(2) by blast
  next
    case rejected then show ?thesis using assms(2) by simp
  next
    case delivered then show ?thesis using assms(2) by (rule deliver_success_Return)
  qed
qed

lemma attempt_Return_success:
  assumes "attempt env opts ctx key c m k = Return r c' evs" and "isSuccess r"
  shows "c' = cache_set key r (date_now env (Suc k)) c"
proof -
  let ?h = "catch_block env opts c m k"
  from assms(1) obtain tr where
    b: "try_bind ?h (fetch env ctx (includeCookies_of opts) k) (\<lambda>resp.
         try_bind ?h (isResponseOk opts resp) (\<lambda>responseOk.
           if \<not> responseOk then error_path env opts ctx key c k ?h resp
           else success_path env opts ctx key c k ?h resp)) = Return r c' tr"
    unfolding attempt_def Let_def using emit_Return by blast
  from try_bind_cases[OF b] show ?thesis
  proof (elim disjE exE conjE)
    fix e assume "Return r c' tr = ?h e"
    then show ?thesis using catch_block_Return[of env opts c m k e r c' tr] assms(2) by simp
  next
    fix resp
    assume "Return r c' tr = try_bind ?h (isResponseOk opts resp) (\<lambda>responseOk.
           if \<not> responseOk then error_path env opts ctx key c k ?h resp
           else success_path env opts ctx key c k ?h resp)"
    then have b2: "try_bind ?h (isResponseOk opts resp) (\<lambda>responseOk.
           if \<not> responseOk then error_path env opts ctx key c k ?h resp
           else success_path env opts ctx key c k ?h resp) = Return r c' tr" by simp
    from try_bind_cases[OF b2] show ?thesis
    proof (elim disjE exE conjE)
      fix e assume "Return r c' tr = ?h e"
      then show ?thesis using catch_block_Return[of env opts c m k e r c' tr] assms(2) by simp
    next
      fix a assume "Return r c' tr = (if \<not> a then error_path env opts ctx key c k ?h resp
           else success_path env opts ctx key c k ?h resp)"
      then show ?thesis
        using error_path_Return[of env opts ctx key c k m resp r c' tr]
              success_path_Return[of env opts ctx key c k m resp r c' tr] assms(2)
        by (auto split: if_splits)
    qed
  qed
qed

lemma dispatch_loop_success_stored:
  assumes "dispatch_loop env opts ctx key c m k = (r, c', tr)" and "isSuccess r"
  shows "\<exists>t. c' = cache_set key r t c"
  using assms
proof (induction "nat (retries_of opts + 1 - int k)" arbitrary: k m tr)
  case 0
  then have "\<not> int k \<le> retries_of opts" by simp
  then have "r = makeError env k m None" using 0 by (simp add: dispatch_loop_exhausted)
  then show ?case using "0.prems"(2) by simp
next
  case (Suc d)
  then have run: "int k \<le> retries_of opts" by simp
  show ?case
  proof (cases "attempt env opts ctx key c m k")
    case (Continue m' evs)
    obtain r1 c1 tr1 where l: "dispatch_loop env opts ctx key c m' (Suc k) = (r1, c1, tr1)"
      by (cases "dispatch_loop env opts ctx key c m' (Suc k)") auto
    with Suc.prems(1) have "r1 = r" "c1 = c'"
      by (simp_all add: dispatch_loop_Continue[OF run Continue])
    with l have "dispatch_loop env opts ctx key c m' (Suc k) = (r, c', tr1)" by simp
    moreover have "d = nat (retries_of opts + 1 - int (Suc k))" using Suc.hyps(2) by simp
    ultimately show ?thesis using Suc.hyps(1)[of "Suc k" m' tr1] Suc.prems(2) by simp
  next
    case (Return r1 c1 evs)
    with Suc.prems(1) have "r1 = r" "c1 = c'"
      by (simp_all add: dispatch_loop_Return[OF run Return])
    with Return attempt_Return_success[of env opts ctx key c m k r c' evs] Suc.prems(2)
    show ?thesis by blast
  qed
qed

lemma cache_probe_hit:
  "cache_probe env opts (Some key) c = (Some d, c') \<Longrightarrow>
   c' = c \<and> (\<exists>it. c key = Some it \<and> data it = d)"
  by (auto simp: cache_probe_def split: if_splits option.splits)

lemma CustomFetch_live:
  assumes req: "intercept_request env opts = (Inr ctx, evs)"
    and key: "cache_key opts ctx = Some key"
    and item: "c key = Some item"
    and live: "date_now env 0 - timestamp item < cacheTime_of opts"
  shows "CustomFetch env opts c = (Inr (data item), c, evs)"
  using cache_key_nonempty[OF key] item live
  by (simp add: CustomFetch_def req probe_and_dispatch_def key cache_probe_def)

lemma CustomFetch_stale:
  assumes req: "intercept_request env opts = (Inr ctx, evs)"
    and key: "cache_key opts ctx = Some key"
    and item: "c key = Some item"
    and stale: "\<not> date_now env 0 - timestamp item < cacheTime_of opts"
  shows "CustomFetch env opts c =
           (case dispatch_loop env opts ctx (Some key) (c(key := None))
                   (JStr ''Maximum retry count reached'') 0 of
              (r, c', tr) \<Rightarrow> (Inr r, c', evs @ tr))"
  using cache_key_nonempty[OF key] item stale
  by (simp add: CustomFetch_def req probe_and_dispatch_def key cache_probe_def)

lemma successful_call_leaves_entry:
  assumes req: "intercept_request env opts = (Inr ctx, evs)"
    and key: "cache_key opts ctx = Some key"
    and call: "CustomFetch env opts c = (Inr r1, c1, tr1)"
    and succ: "isSuccess r1"
  shows "\<exists>it. c1 key = Some it \<and> data it = r1"
proof (cases "cache_probe env opts (Some key) c")
  case (Pair hit c')
  show ?thesis
  proof (cases hit)
    case (Some d)
    with Pair call have "r1 = d" "c1 = c'"
      by (simp_all add: CustomFetch_def req probe_and_dispatch_def key)
    with cache_probe_hit[of env opts key c d c'] Pair Some show ?thesis by auto
  next
    case None
    obtain r c2 tr where l: "dispatch_loop env opts ctx (Some key) c'
                              (JStr ''Maximum retry count reached'') 0 = (r, c2, tr)"
      by (cases "dispatch_loop env opts ctx (Some key) c' (JStr ''Maximum retry count reached'') 0") auto
    with Pair None call have "r = r1" "c2 = c1"
      by (simp_all add: CustomFetch_def req probe_and_dispatch_def key)
    with l dispatch_loop_success_stored[of env opts ctx "Some key" c' _ 0 r1 c1 tr] succ
    obtain t where "c1 = cache_set (Some key) r1 t c'" by auto
    then show ?thesis using cache_key_nonempty[OF key] by (simp add: cache_set_def)
  qed
qed

text \<open>
  Claim C6. For a call with caching enabled whose cache key has a stored entry: if the
  entry's age is less than \<open>cacheTime\<close>, the stored outcome is returned at once, the cache is
  unchanged, and the call has no dispatch, no sleep and no response-interceptor event; if
  the age is at least \<open>cacheTime\<close>, the call is the dispatch loop run on the cache without
  that entry, and with \<open>retries \<ge> 0\<close> its first event after the request interception is a
  dispatch. Hence a second call with the same key, made while the entry a first successful
  call left is younger than \<open>cacheTime\<close>, returns the identical outcome without a dispatch.
\<close>

theorem cache_hit_bypasses_dispatch_stale_entry_deleted:
  assumes req: "intercept_request env opts = (Inr ctx, evs)"
    and key: "cache_key opts ctx = Some key"
  shows "(c key = Some item \<and> date_now env 0 - timestamp item < cacheTime_of opts \<longrightarrow>
            CustomFetch env opts c = (Inr (data item), c, evs) \<and>
            dispatches evs = 0 \<and> sleeps evs = [] \<and> ResponseIntercepted \<notin> set evs) \<and>
         (c key = Some item \<and> \<not> date_now env 0 - timestamp item < cacheTime_of opts \<longrightarrow>
            CustomFetch env opts c =
              (case dispatch_loop env opts ctx (Some key) (c(key := None))
                      (JStr ''Maximum retry count reached'') 0 of
                 (r, c', tr) \<Rightarrow> (Inr r, c', evs @ tr)) \<and>
            (0 \<le> retries_of opts \<longrightarrow>
               (\<exists>r c' tr. CustomFetch env opts c = (Inr r, c', evs @ Dispatch # tr)))) \<and>
         (CustomFetch env opts c = (Inr r1, c1, tr1) \<and> isSuccess r1 \<and>
          intercept_request env2 opts = (Inr ctx2, evs2) \<and> cache_key opts ctx2 = Some key \<and>
          (\<forall>it. c1 key = Some it \<longrightarrow> date_now env2 0 - timestamp it < cacheTime_of opts) \<longrightarrow>
            CustomFetch env2 opts c1 = (Inr r1, c1, evs2) \<and> dispatches evs2 = 0)"
proof (intro conjI impI)
  assume a: "c key = Some item \<and> date_now env 0 - timestamp item < cacheTime_of opts"
  then show "CustomFetch env opts c = (Inr (data item), c, evs)"
    using CustomFetch_live[OF req key] by simp
  show "dispatches evs = 0" "sleeps evs = []"
    using intercept_request_events[OF req] by simp_all
  show "ResponseIntercepted \<notin> set evs"
    using req by (auto simp: intercept_request_def split: option.splits sum.splits)
next
  assume a: "c key = Some item \<and> \<not> date_now env 0 - timestamp item < cacheTime_of opts"
  then show s: "CustomFetch env opts c =
              (case dispatch_loop env opts ctx (Some key) (c(key := None))
                      (JStr ''Maximum retry count reached'') 0 of
                 (r, c', tr) \<Rightarrow> (Inr r, c', evs @ tr))"
    using CustomFetch_stale[OF req key] by simp
  assume "0 \<le> retries_of opts"
  then obtain r c' tr where
    "dispatch_loop env opts ctx (Some key) (c(key := None)) (JStr ''Maximum retry count reached'') 0 =
       (r, c', Dispatch # tr)"
    using dispatch_loop_starts_with_dispatch[of 0 opts env ctx "Some key" "c(key := None)"
            "JStr ''Maximum retry count reached''"] by auto
  with s show "\<exists>r c' tr. CustomFetch env opts c = (Inr r, c', evs @ Dispatch # tr)" by simp
next
  assume a: "CustomFetch env opts c = (Inr r1, c1, tr1) \<and> isSuccess r1 \<and>
          intercept_request env2 opts = (Inr ctx2, evs2) \<and> cache_key opts ctx2 = Some key \<and>
          (\<forall>it. c1 key = Some it \<longrightarrow> date_now env2 0 - timestamp it < cacheTime_of opts)"
  then obtain it where it: "c1 key = Some it" "data it = r1"
    using successful_call_leaves_entry[OF req key] by blast
  with a have live: "date_now env2 0 - timestamp it < cacheTime_of opts" by simp
  from a have req2: "intercept_request env2 opts = (Inr ctx2, evs2)"
    and key2: "cache_key opts ctx2 = Some key" by simp_all
  show "CustomFetch env2 opts c1 = (Inr r1, c1, evs2)"
    using CustomFetch_live[of env2 opts ctx2 evs2 key c1 it] req2 key2 it live by simp
  show "dispatches evs2 = 0" using intercept_request_events[OF req2] by simp
qed

theorem cache_probe_witness:
  "intercept_request (test_env (always_answers 200 ''hello'')) caching_options =
     (Inr (plain_context ''u''), []) \<and>
   cache_key caching_options (plain_context ''u'') = Some ''GET:u:$'' \<and>
   CustomFetch (test_env (always_answers 200 ''hello'')) caching_options
     [''GET:u:$'' \<mapsto> \<lparr>data = old_outcome, timestamp = 900\<rparr>] =
     (Inr old_outcome, [''GET:u:$'' \<mapsto> \<lparr>data = old_outcome, timestamp = 900\<rparr>], []) \<and>
   (\<exists>r c' tr. CustomFetch (test_env (always_answers 200 ''hello'')) caching_options
                [''GET:u:$'' \<mapsto> \<lparr>data = old_outcome, timestamp = - 400000\<rparr>] =
                (Inr r, c', [] @ Dispatch # tr)) \<and>
   CustomFetch (test_env (always_answers 200 ''hello'')) caching_options Map.empty =
     (Inr hello_outcome, [''GET:u:$'' \<mapsto> \<lparr>data = hello_outcome, timestamp = 1001\<rparr>], [Dispatch]) \<and>
   CustomFetch (test_env (always_answers 200 ''hello'')) caching_options
     [''GET:u:$'' \<mapsto> \<lparr>data = hello_outcome, timestamp = 1001\<rparr>] =
     (Inr hello_outcome, [''GET:u:$'' \<mapsto> \<lparr>data = hello_outcome, timestamp = 1001\<rparr>], [])"
proof -
  let ?env = "test_env (always_answers 200 ''hello'')"
  let ?ctx = "plain_context ''u''"
  let ?key = "''GET:u:$''"
  let ?live = "[?key \<mapsto> \<lparr>data = old_outcome, timestamp = 900\<rparr>]"
  let ?stale = "[?key \<mapsto> \<lparr>data = old_outcome, timestamp = - 400000\<rparr>]"
  let ?c1 = "[?key \<mapsto> \<lparr>data = hello_outcome, timestamp = 1001\<rparr>]"
  have req: "intercept_request ?env caching_options = (Inr ?ctx, [])"
    by (simp add: caching_options_def fixture_defs option_defs call_defs)
  have key: "cache_key caching_options ?ctx = Some ?key"
    by (simp add: caching_options_def fixture_defs option_defs call_defs)
  note t = cache_hit_bypasses_dispatch_stale_entry_deleted[OF req key]
  have hl: "?live ?key = Some \<lparr>data = old_outcome, timestamp = 900\<rparr> \<and>
            date_now ?env 0 - timestamp \<lparr>data = old_outcome, timestamp = 900\<rparr> < cacheTime_of caching_options"
    by (simp add: caching_options_def fixture_defs option_defs)
  have hs: "?stale ?key = Some \<lparr>data = old_outcome, timestamp = - 400000\<rparr> \<and>
            \<not> date_now ?env 0 - timestamp \<lparr>data = old_outcome, timestamp = - 400000\<rparr> < cacheTime_of caching_options"
    by (simp add: caching_options_def fixture_defs option_defs)
  have rt: "0 \<le> retries_of caching_options"
    by (simp add: caching_options_def fixture_defs option_defs)
  have c1: "CustomFetch ?env caching_options ?live =
              (Inr (data \<lparr>data = old_outcome, timestamp = 900\<rparr>), ?live, [])"
    by (rule t[where c="?live", THEN conjunct1, THEN mp, OF hl, THEN conjunct1])
  have c2: "\<exists>r c' tr. CustomFetch ?env caching_options ?stale = (Inr r, c', [] @ Dispatch # tr)"
    by (rule t[where c="?stale", THEN conjunct2, THEN conjunct1, THEN mp, OF hs, THEN conjunct2, THEN mp, OF rt])
  have first: "CustomFetch ?env caching_options Map.empty = (Inr hello_outcome, ?c1, [Dispatch])"
    by (simp add: caching_options_def hello_outcome_def fixture_defs option_defs body_defs outcome_defs
          call_defs Let_def)
  have h2: "CustomFetch ?env caching_options Map.empty = (Inr hello_outcome, ?c1, [Dispatch]) \<and>
            isSuccess hello_outcome \<and>
            intercept_request ?env caching_options = (Inr ?ctx, []) \<and>
            cache_key caching_options ?ctx = Some ?key \<and>
            (\<forall>it. ?c1 ?key = Some it \<longrightarrow> date_now ?env 0 - timestamp it < cacheTime_of caching_options)"
    using first req key
    by (simp add: caching_options_def hello_outcome_def fixture_defs option_defs)
  have c3: "CustomFetch ?env caching_options ?c1 = (Inr hello_outcome, ?c1, [])"
    by (rule t[where c=Map.empty and ?c1.0="?c1" and ?r1.0=hello_outcome and ?tr1.0="[Dispatch]"
                 and ?env2.0="?env" and ?ctx2.0="?ctx" and ?evs2.0="[]",
               THEN conjunct2, THEN conjunct2, THEN mp, OF h2, THEN conjunct1])
  show ?thesis
    using req key c1 c2 first c3 by simp
qed

subsection \<open>The key a call stores under and the key that is cleared\<close>

lemma clear_key_differs:
  "cache_key opts ctx = Some key \<Longrightarrow>
   key \<noteq> clear_key (ctx_url ctx) (Some (ctx_method ctx)) (Some (body_text (ctx_body ctx)))"
  by (auto simp: cache_key_def clear_key_def split: if_splits)

text \<open>
  Claim C1. The engine stores the outcome of a cached call under
  \<open>method:url:$body\<close>, with a \<open>$\<close> before the body text, while \<open>clearSpecificCache\<close>
  deletes \<open>method:url:body\<close>. The two keys differ for every request, so clearing with
  the call's own URL, method and body text leaves the entry in place. Evaluated for a
  cached GET of \<open>u\<close> without a body: the entry is under \<open>GET:u:$\<close>, and
  \<open>clearSpecificCache(u, "GET", null)\<close>, which deletes \<open>GET:u:\<close>, leaves the cache as
  it is.
\<close>

theorem cached_get_survives_clearSpecificCache:
  "CustomFetch (test_env (always_answers 200 ''hello'')) caching_options Map.empty =
     (Inr hello_outcome, [''GET:u:$'' \<mapsto> \<lparr>data = hello_outcome, timestamp = 1001\<rparr>], [Dispatch]) \<and>
   clear_key ''u'' (Some GET) None = ''GET:u:'' \<and>
   clearSpecificCache ''u'' (Some GET) None
     [''GET:u:$'' \<mapsto> \<lparr>data = hello_outcome, timestamp = 1001\<rparr>] =
     [''GET:u:$'' \<mapsto> \<lparr>data = hello_outcome, timestamp = 1001\<rparr>] \<and>
   clearSpecificCache ''u'' None None
     [''GET:u:$'' \<mapsto> \<lparr>data = hello_outcome, timestamp = 1001\<rparr>] ''GET:u:$'' =
     Some \<lparr>data = hello_outcome, timestamp = 1001\<rparr>"
  by (simp add: caching_options_def hello_outcome_def fixture_defs option_defs body_defs outcome_defs
        call_defs clearSpecificCache_def clear_key_def Let_def)

end
